theory Spec2Isabelle
  imports Complex_Main "HOL-Library.Sublist"
begin

section \<open>Strings of the host language\<close>

text \<open>
  Source strings are modelled as \<^typ>\<open>string\<close>, read as sequences of code units in the
  ASCII range. \<open>trim\<close> removes white space and line terminators (TAB, LF, VT, FF, CR,
  SPACE) from both ends; \<open>toUpperCase\<close> and \<open>toLowerCase\<close> map the letters a-z and A-Z
  and leave every other code unit as it is.
\<close>

definition isSpace :: "char \<Rightarrow> bool" where
  "isSpace c = (c \<in> set [CHR 0x09, CHR 0x0A, CHR 0x0B, CHR 0x0C, CHR 0x0D, CHR '' ''])"

definition trimStart :: "string \<Rightarrow> string" where
  "trimStart s = dropWhile isSpace s"

definition trim :: "string \<Rightarrow> string" where
  "trim s = rev (dropWhile isSpace (rev (dropWhile isSpace s)))"

definition upperChar :: "char \<Rightarrow> char" where
  "upperChar c =
     (case map_of (zip ''abcdefghijklmnopqrstuvwxyz'' ''ABCDEFGHIJKLMNOPQRSTUVWXYZ'') c of
        Some u \<Rightarrow> u
      | None \<Rightarrow> c)"

definition lowerChar :: "char \<Rightarrow> char" where
  "lowerChar c =
     (case map_of (zip ''ABCDEFGHIJKLMNOPQRSTUVWXYZ'' ''abcdefghijklmnopqrstuvwxyz'') c of
        Some l \<Rightarrow> l
      | None \<Rightarrow> c)"

definition toUpperCase :: "string \<Rightarrow> string" where
  "toUpperCase s = map upperChar s"

definition toLowerCase :: "string \<Rightarrow> string" where
  "toLowerCase s = map lowerChar s"

text \<open>The value of a hexadecimal digit, \<open>None\<close> for any other character.\<close>

definition hexVal :: "char \<Rightarrow> int option" where
  "hexVal c =
     map_of (zip ''0123456789ABCDEF'' [0, 1, 2, 3, 4, 5, 6, 7, 8, 9, 10, 11, 12, 13, 14, 15]
             @ zip ''abcdef'' [10, 11, 12, 13, 14, 15]) c"

definition isHexDigit :: "char \<Rightarrow> bool" where
  "isHexDigit c = (hexVal c \<noteq> None)"

text \<open>The regular expression \<open>/^[0-9A-Fa-f]+$/\<close>: one or more hexadecimal digits, nothing else.\<close>

definition allHex :: "string \<Rightarrow> bool" where
  "allHex s = (s \<noteq> [] \<and> list_all isHexDigit s)"

text \<open>\<open>s.replace(/^#/, '')\<close>: one leading number sign is removed.\<close>

definition stripHash :: "string \<Rightarrow> string" where
  "stripHash s = (case s of [] \<Rightarrow> [] | c # cs \<Rightarrow> if c = CHR ''#'' then cs else s)"

text \<open>
  \<open>parseInt(s, 16)\<close>: leading white space is skipped, then an optional sign and an optional
  \<open>0x\<close> prefix, then the longest run of hexadecimal digits is read. With no digit the
  result is NaN, here \<open>None\<close>. The integer is exact; the source's number is a double, which
  is exact up to thirteen hexadecimal digits, and every call below reads at most eight.
\<close>

definition hexNumber :: "string \<Rightarrow> int" where
  "hexNumber ds = foldl (\<lambda>acc c. 16 * acc + (case hexVal c of Some v \<Rightarrow> v | None \<Rightarrow> 0)) 0 ds"

definition strip0x :: "string \<Rightarrow> string" where
  "strip0x s =
     (case s of
        c # d # rest \<Rightarrow> if c = CHR ''0'' \<and> (d = CHR ''x'' \<or> d = CHR ''X'') then rest else s
      | _ \<Rightarrow> s)"

definition parseInt16 :: "string \<Rightarrow> int option" where
  "parseInt16 s =
     (let t = trimStart s;
          sign = (case t of c # _ \<Rightarrow> if c = CHR ''-'' then - 1 else 1 | [] \<Rightarrow> (1 :: int));
          t1 = (case t of c # rest \<Rightarrow> if c = CHR ''-'' \<or> c = CHR ''+'' then rest else t | [] \<Rightarrow> t);
          ds = takeWhile isHexDigit (strip0x t1)
      in if ds = [] then None else Some (sign * hexNumber ds))"

text \<open>The conversion to a signed 32-bit integer that the shift operators apply; NaN becomes 0.\<close>

definition toInt32 :: "int option \<Rightarrow> int" where
  "toInt32 v = (case v of None \<Rightarrow> 0 | Some n \<Rightarrow> (n + 2147483648) mod 4294967296 - 2147483648)"

section \<open>Colour utilities (ui/utils/colors)\<close>

text \<open>
  \<open>toHex6\<close>: a null or empty argument gives null; otherwise the trimmed text, with one
  leading number sign removed, has to consist of hexadecimal digits and to have length
  6 or 8.
\<close>

definition toHex6 :: "string option \<Rightarrow> string option" where
  "toHex6 hex =
     (case hex of
        None \<Rightarrow> None
      | Some h \<Rightarrow>
          if h = [] then None
          else
            let clean = stripHash (trim h) in
            if \<not> allHex clean then None
            else if length clean = 6 then Some (CHR ''#'' # toUpperCase clean)
            else if length clean = 8 then
              (let firstSix = take 6 clean;
                   middleSix = drop 2 clean
               in if toUpperCase firstSix = ''000000''
                  then Some (CHR ''#'' # toUpperCase middleSix)
                  else Some (CHR ''#'' # toUpperCase firstSix))
            else None)"

record rgb =
  r :: int
  g :: int
  b :: int

text \<open>
  \<open>hexToRgb\<close>: \<open>hex.replace('#', '')\<close> removes the first number sign wherever it stands;
  \<open>(n >> 16) & 255\<close> on a signed 32-bit integer is \<open>(n div 65536) mod 256\<close>.
\<close>

definition hexToRgb :: "string \<Rightarrow> rgb" where
  "hexToRgb hex =
     (let bigint = toInt32 (parseInt16 (remove1 CHR ''#'' hex))
      in \<lparr> r = (bigint div 65536) mod 256, g = (bigint div 256) mod 256, b = bigint mod 256 \<rparr>)"

text \<open>
  Numbers of the source are doubles; in the colour computations they are modelled as real
  numbers, \<open>Math.pow\<close> as \<open>powr\<close> and \<open>Math.sqrt\<close> as \<open>sqrt\<close>.
\<close>

definition toLinear :: "int \<Rightarrow> real" where
  "toLinear v =
     (let sRGB = real_of_int v / 255
      in if sRGB \<le> 0.03928 then sRGB / 12.92 else ((sRGB + 0.055) / 1.055) powr 2.4)"

definition getLuminance :: "rgb \<Rightarrow> real" where
  "getLuminance c = 0.2126 * toLinear (r c) + 0.7152 * toLinear (g c) + 0.0722 * toLinear (b c)"

definition getRelativeLuminance :: "string \<Rightarrow> real" where
  "getRelativeLuminance hex = getLuminance (hexToRgb hex)"

text \<open>The options object; a flag that is absent counts as false, as \<open>!!options?.flag\<close> does.\<close>

record contrastOptions =
  largeText :: bool
  nonText :: bool
  reportAAA :: bool

record contrastResult =
  ratio :: real
  passesAA :: bool
  passesAAA :: "bool option"
  requiredAA :: real
  requiredAAA :: "real option"

definition contrastRatio :: "string \<Rightarrow> string \<Rightarrow> real" where
  "contrastRatio hex1 hex2 =
     (let luminance1 = getLuminance (hexToRgb hex1);
          luminance2 = getLuminance (hexToRgb hex2)
      in (max luminance1 luminance2 + 0.05) / (min luminance1 luminance2 + 0.05))"

definition calculateContrastRatio :: "string \<Rightarrow> string \<Rightarrow> contrastOptions \<Rightarrow> contrastResult" where
  "calculateContrastRatio hex1 hex2 options =
     (let cr = contrastRatio hex1 hex2;
          isLarge = largeText options;
          isNonText = nonText options;
          reqAA = (if isLarge \<or> isNonText then 3.0 else 4.5);
          pAA = (cr \<ge> reqAA)
      in if reportAAA options then
           (let reqAAA = (if isLarge then 4.5 else 7.0);
                pAAA = (cr \<ge> reqAAA)
            in \<lparr> ratio = cr, passesAA = pAA, passesAAA = Some pAAA,
                 requiredAA = reqAA, requiredAAA = Some reqAAA \<rparr>)
         else \<lparr> ratio = cr, passesAA = pAA, passesAAA = None,
                requiredAA = reqAA, requiredAAA = None \<rparr>)"

definition colorDistance :: "string \<Rightarrow> string \<Rightarrow> real" where
  "colorDistance hex1 hex2 =
     (let a = hexToRgb hex1;
          c = hexToRgb hex2;
          dr = r a - r c;
          dg = g a - g c;
          db = b a - b c
      in sqrt (real_of_int (dr * dr + dg * dg + db * db)))"

section \<open>Brand configuration (brandConfig)\<close>

record brandKit =
  name :: string
  allowedColors :: "string list"
  allowedFonts :: "string list"
  minContrast :: real

text \<open>
  The kit is held in two places. The manager of \<open>hooks/useBrandKit\<close> keeps the loaded kit in
  one cell, which is null before a kit is loaded and while \<open>setActiveKit\<close> or
  \<open>reloadBrandKit\<close> loads another; \<open>getBrandKit\<close> returns the cell, or a hard-coded kit when
  the cell is null. The component keeps the value of \<open>useBrandKit\<close> in its own state, which
  is replaced when the manager notifies it with a kit that is not null.
\<close>

definition defaultKit :: brandKit where
  "defaultKit =
     \<lparr> name = ''Enterprise Pro'',
       allowedColors = [''#232D4B'', ''#E57200'', ''#FFFFFF'', ''#DADADA'', ''#EF3F6B'', ''#62BB46''],
       allowedFonts = [''Arial'', ''Georgia''],
       minContrast = 4.5 \<rparr>"

definition getBrandKit :: "brandKit option \<Rightarrow> brandKit" where
  "getBrandKit manager = (case manager of None \<Rightarrow> defaultKit | Some kit \<Rightarrow> kit)"

text \<open>\<open>normalizeFontName\<close>: null for a null, undefined or empty name, else trimmed and lower-cased.\<close>

definition normalizeFontName :: "string option \<Rightarrow> string option" where
  "normalizeFontName nm =
     (case nm of None \<Rightarrow> None | Some n \<Rightarrow> if n = [] then None else Some (toLowerCase (trim n)))"

text \<open>The loop of \<open>isFontAllowed\<close> over the fonts to check, for a normalized name.\<close>

fun fontMatches :: "string \<Rightarrow> string list \<Rightarrow> bool" where
  "fontMatches normalized [] = False"
| "fontMatches normalized (allowedFont # rest) =
     (case normalizeFontName (Some allowedFont) of
        None \<Rightarrow> fontMatches normalized rest
      | Some allowedNormalized \<Rightarrow>
          if allowedNormalized = [] then fontMatches normalized rest
          else if normalized = allowedNormalized then True
          else if prefix (allowedNormalized @ '' '') normalized \<or>
                  prefix (allowedNormalized @ ''-'') normalized \<or>
                  prefix (allowedNormalized @ ''_'') normalized then True
          else fontMatches normalized rest)"

text \<open>
  \<open>isFontAllowed\<close>; the second argument is \<open>fontsToCheck\<close>: the list passed by the caller or,
  when the caller passes none, \<open>allowedFonts\<close> of the kit that \<open>getBrandKit\<close> returns.
\<close>

definition isFontAllowed :: "string option \<Rightarrow> string list \<Rightarrow> bool" where
  "isFontAllowed fontName fontsToCheck =
     (case fontName of
        None \<Rightarrow> True
      | Some f \<Rightarrow>
          if f = [] then True
          else (case normalizeFontName fontName of
                  None \<Rightarrow> True
                | Some normalized \<Rightarrow>
                    if normalized = [] then True else fontMatches normalized fontsToCheck))"

section \<open>Brand kit validation (hooks/useBrandKit)\<close>

text \<open>
  The argument of \<open>validateBrandKit\<close> has type \<open>any\<close>: it is modelled as a value of the
  host language as JSON gives it, with \<open>undefined\<close> added. An object is the list of its
  own properties; the first binding of a key is the property's value.
\<close>

datatype json =
    JNull
  | JUndefined
  | JBool bool
  | JNum real
  | JStr string
  | JArr "json list"
  | JObj "(string \<times> json) list"

datatype jsError = TypeError

definition typeof :: "json \<Rightarrow> string" where
  "typeof v =
     (case v of
        JNull \<Rightarrow> ''object''
      | JUndefined \<Rightarrow> ''undefined''
      | JBool _ \<Rightarrow> ''boolean''
      | JNum _ \<Rightarrow> ''number''
      | JStr _ \<Rightarrow> ''string''
      | JArr _ \<Rightarrow> ''object''
      | JObj _ \<Rightarrow> ''object'')"

definition truthy :: "json \<Rightarrow> bool" where
  "truthy v =
     (case v of
        JNull \<Rightarrow> False
      | JUndefined \<Rightarrow> False
      | JBool c \<Rightarrow> c
      | JNum n \<Rightarrow> n \<noteq> 0
      | JStr s \<Rightarrow> s \<noteq> []
      | JArr _ \<Rightarrow> True
      | JObj _ \<Rightarrow> True)"

definition isArray :: "json \<Rightarrow> bool" where
  "isArray v = (case v of JArr _ \<Rightarrow> True | _ \<Rightarrow> False)"

text \<open>
  Reading a property throws a \<open>TypeError\<close> on \<open>null\<close> and \<open>undefined\<close>. The properties read
  below (\<open>name\<close>, \<open>allowedColors\<close>, \<open>allowedFonts\<close>, \<open>accessibility\<close>, \<open>minContrast\<close>) are
  \<open>undefined\<close> on arrays and primitive values.
\<close>

definition getProp :: "json \<Rightarrow> string \<Rightarrow> jsError + json" where
  "getProp v key =
     (case v of
        JNull \<Rightarrow> Inl TypeError
      | JUndefined \<Rightarrow> Inl TypeError
      | JObj kvs \<Rightarrow> (case map_of kvs key of Some x \<Rightarrow> Inr x | None \<Rightarrow> Inr JUndefined)
      | _ \<Rightarrow> Inr JUndefined)"

text \<open>Calling \<open>.trim()\<close> throws on anything but a string; so does \<open>.forEach\<close> on anything but an array.\<close>

definition jsTrim :: "json \<Rightarrow> jsError + string" where
  "jsTrim v = (case v of JStr s \<Rightarrow> Inr (trim s) | _ \<Rightarrow> Inl TypeError)"

definition jsElements :: "json \<Rightarrow> jsError + json list" where
  "jsElements v = (case v of JArr xs \<Rightarrow> Inr xs | _ \<Rightarrow> Inl TypeError)"

definition bindE :: "jsError + 'a \<Rightarrow> ('a \<Rightarrow> jsError + 'b) \<Rightarrow> jsError + 'b" where
  "bindE m f = (case m of Inl e \<Rightarrow> Inl e | Inr x \<Rightarrow> f x)"

record validationError =
  field :: string
  message :: string

record validationResult =
  valid :: bool
  errors :: "validationError list"

definition AVAILABLE_FONTS :: "string list" where
  "AVAILABLE_FONTS =
     [''Arial'', ''Georgia'', ''Courier'', ''Courier New'', ''Source Sans 3'', ''Lato'',
      ''Times New Roman'', ''Verdana'', ''Tahoma'', ''Helvetica'', ''Comic Sans MS'', ''Impact'',
      ''Trebuchet MS'', ''Lucida Sans Unicode'', ''Palatino'', ''Garamond'', ''Bookman'',
      ''Avant Garde'', ''Century Gothic'', ''Futura'']"

definition KNOWN_AVAILABLE_FONTS :: "string set" where
  "KNOWN_AVAILABLE_FONTS = set (map (\<lambda>f. trim (toLowerCase f)) AVAILABLE_FONTS)"

definition normalizeFontNameForValidation :: "string \<Rightarrow> string" where
  "normalizeFontNameForValidation fontName = trim (toLowerCase fontName)"

definition isValidHexColor :: "string \<Rightarrow> bool" where
  "isValidHexColor color =
     (let trimmed = trim color in
      if \<not> prefix ''#'' trimmed then False
      else
        let hexPart = drop 1 trimmed in
        if length hexPart \<noteq> 3 \<and> length hexPart \<noteq> 6 then False
        else if \<not> allHex hexPart then False
        else True)"

definition normalizeHexColor :: "string \<Rightarrow> string option" where
  "normalizeHexColor color =
     (if \<not> isValidHexColor color then None
      else
        let trimmed = toUpperCase (trim color);
            hexPart = drop 1 trimmed
        in if length hexPart = 3
           then Some (CHR ''#'' # concat (map (\<lambda>c. [c, c]) hexPart))
           else Some trimmed)"

text \<open>Decimal digits of an array index, for the field paths and messages.\<close>

fun showNat :: "nat \<Rightarrow> string" where
  "showNat n =
     (if n < 10 then [''0123456789'' ! n]
      else showNat (n div 10) @ [''0123456789'' ! (n mod 10)])"

declare showNat.simps [simp del]

definition quoted :: "string \<Rightarrow> string" where
  "quoted s = CHR 0x22 # s @ [CHR 0x22]"

definition indexed :: "string \<Rightarrow> nat \<Rightarrow> string" where
  "indexed arr i = arr @ ''['' @ showNat i @ '']''"

definition mkError :: "string \<Rightarrow> string \<Rightarrow> validationError" where
  "mkError f m = \<lparr> field = f, message = m \<rparr>"

text \<open>
  The body of the \<open>forEach\<close> over \<open>allowedColors\<close>: the errors it pushes for one entry, and
  the map of normalized colours seen so far.
\<close>

definition checkColor ::
  "nat \<Rightarrow> json \<Rightarrow> (string \<times> nat) list \<Rightarrow> jsError + (validationError list \<times> (string \<times> nat) list)" where
  "checkColor index color normalizedColors =
     (if color = JNull \<or> color = JUndefined then
        Inr ([mkError (indexed ''allowedColors'' index) ''Color cannot be null or undefined''],
             normalizedColors)
      else if typeof color \<noteq> ''string'' then
        Inr ([mkError (indexed ''allowedColors'' index)
                (''Color must be a string, got '' @ typeof color)], normalizedColors)
      else
        bindE (jsTrim color) (\<lambda>trimmedColor.
          let shown = (case color of JStr s \<Rightarrow> s | _ \<Rightarrow> []) in
          if length trimmedColor = 0 then
            Inr ([mkError (indexed ''allowedColors'' index) ''Color cannot be an empty string''],
                 normalizedColors)
          else if \<not> isValidHexColor trimmedColor then
            (if \<not> prefix ''#'' trimmedColor then
               Inr ([mkError (indexed ''allowedColors'' index)
                       (''Color '' @ quoted shown @ '' is invalid: must start with '' @ quoted ''#''
                        @ '' (e.g., '' @ quoted ''#FF0000'' @ '' or '' @ quoted ''#F00'' @ '')'')],
                    normalizedColors)
             else if length trimmedColor < 4 \<or> length trimmedColor > 7 then
               Inr ([mkError (indexed ''allowedColors'' index)
                       (''Color '' @ quoted shown @ '' is invalid: must be 3 or 6 hex digits after ''
                        @ quoted ''#'' @ '' (e.g., '' @ quoted ''#FF0000'' @ '' or ''
                        @ quoted ''#F00'' @ '')'')],
                    normalizedColors)
             else
               let hexPart = drop 1 trimmedColor in
               if \<not> allHex hexPart then
                 Inr ([mkError (indexed ''allowedColors'' index)
                         (''Color '' @ quoted shown
                          @ '' is invalid: contains invalid hex characters. Only 0-9 and A-F are allowed'')],
                      normalizedColors)
               else
                 Inr ([mkError (indexed ''allowedColors'' index)
                         (''Color '' @ quoted shown @ '' is not a valid hex color (e.g., ''
                          @ quoted ''#FF0000'' @ '' or '' @ quoted ''#F00'' @ '')'')],
                      normalizedColors))
          else
            (case normalizeHexColor trimmedColor of
               None \<Rightarrow> Inr ([], normalizedColors)
             | Some normalized \<Rightarrow>
                 (case map_of normalizedColors normalized of
                    Some firstIndex \<Rightarrow>
                      Inr ([mkError (indexed ''allowedColors'' index)
                              (''Color '' @ quoted shown @ '' is a duplicate of color at position ''
                               @ showNat firstIndex @ '' (both normalize to '' @ quoted normalized
                               @ '')'')],
                           normalizedColors)
                  | None \<Rightarrow> Inr ([], (normalized, index) # normalizedColors)))))"

fun colorsLoop ::
  "nat \<Rightarrow> json list \<Rightarrow> (string \<times> nat) list \<Rightarrow> jsError + validationError list" where
  "colorsLoop index [] normalizedColors = Inr []"
| "colorsLoop index (color # rest) normalizedColors =
     bindE (checkColor index color normalizedColors) (\<lambda>(errs, seen).
       bindE (colorsLoop (Suc index) rest seen) (\<lambda>more. Inr (errs @ more)))"

definition unavailableFontMessage :: "string \<Rightarrow> string" where
  "unavailableFontMessage shown =
     ''Font '' @ quoted shown @
     '' is not available in Adobe Express. Available fonts include: Arial, Georgia, Courier, Courier New, Source Sans 3, Lato, Times New Roman, Verdana, Tahoma, Helvetica, Comic Sans MS, Impact, Trebuchet MS, Lucida Sans Unicode, Palatino, Garamond, Bookman, Avant Garde, Century Gothic, Futura''"

definition checkFont ::
  "nat \<Rightarrow> json \<Rightarrow> string list \<Rightarrow> jsError + (validationError list \<times> string list)" where
  "checkFont index font seenFonts =
     (if font = JNull \<or> font = JUndefined then
        Inr ([mkError (indexed ''allowedFonts'' index) ''Font cannot be null or undefined''], seenFonts)
      else if typeof font \<noteq> ''string'' then
        Inr ([mkError (indexed ''allowedFonts'' index)
                (''Font must be a string, got '' @ typeof font)], seenFonts)
      else
        bindE (jsTrim font) (\<lambda>trimmedFont.
          let shown = (case font of JStr s \<Rightarrow> s | _ \<Rightarrow> []) in
          if length trimmedFont = 0 then
            Inr ([mkError (indexed ''allowedFonts'' index) ''Font cannot be an empty string''], seenFonts)
          else
            let normalizedFont = normalizeFontNameForValidation trimmedFont in
            if normalizedFont \<in> set seenFonts then
              Inr ([mkError (indexed ''allowedFonts'' index)
                      (''Font '' @ quoted shown
                       @ '' is a duplicate (case-insensitive match with another font in the list)'')],
                   seenFonts)
            else if normalizedFont \<notin> KNOWN_AVAILABLE_FONTS then
              Inr ([mkError (indexed ''allowedFonts'' index) (unavailableFontMessage shown)],
                   normalizedFont # seenFonts)
            else Inr ([], normalizedFont # seenFonts)))"

fun fontsLoop :: "nat \<Rightarrow> json list \<Rightarrow> string list \<Rightarrow> jsError + validationError list" where
  "fontsLoop index [] seenFonts = Inr []"
| "fontsLoop index (font # rest) seenFonts =
     bindE (checkFont index font seenFonts) (\<lambda>(errs, seen).
       bindE (fontsLoop (Suc index) rest seen) (\<lambda>more. Inr (errs @ more)))"

definition validateName :: "json \<Rightarrow> jsError + validationError list" where
  "validateName kit =
     bindE (getProp kit ''name'') (\<lambda>nm.
       if \<not> truthy nm \<or> typeof nm \<noteq> ''string''
       then Inr [mkError ''name'' ''Brand kit must have a non-empty name'']
       else bindE (jsTrim nm) (\<lambda>t.
         if length t = 0 then Inr [mkError ''name'' ''Brand kit must have a non-empty name'']
         else Inr []))"

definition validateAllowedColors :: "json \<Rightarrow> jsError + validationError list" where
  "validateAllowedColors kit =
     bindE (getProp kit ''allowedColors'') (\<lambda>colors.
       if \<not> isArray colors
       then Inr [mkError ''allowedColors'' ''allowedColors must be an array'']
       else bindE (jsElements colors) (\<lambda>xs.
         if length xs = 0
         then Inr [mkError ''allowedColors'' ''allowedColors must contain at least one color'']
         else colorsLoop 0 xs []))"

definition validateAllowedFonts :: "json \<Rightarrow> jsError + validationError list" where
  "validateAllowedFonts kit =
     bindE (getProp kit ''allowedFonts'') (\<lambda>fonts.
       if \<not> isArray fonts
       then Inr [mkError ''allowedFonts'' ''allowedFonts must be an array'']
       else bindE (jsElements fonts) (\<lambda>xs.
         if length xs = 0
         then Inr [mkError ''allowedFonts'' ''allowedFonts must contain at least one font'']
         else fontsLoop 0 xs []))"

definition validateAccessibility :: "json \<Rightarrow> jsError + validationError list" where
  "validateAccessibility kit =
     bindE (getProp kit ''accessibility'') (\<lambda>acc.
       if \<not> truthy acc \<or> typeof acc \<noteq> ''object''
       then Inr [mkError ''accessibility'' ''accessibility must be an object'']
       else bindE (getProp acc ''minContrast'') (\<lambda>mc.
         case mc of
           JNum x \<Rightarrow>
             if x < 0 \<or> x > 21
             then Inr [mkError ''accessibility.minContrast'' ''minContrast must be between 0 and 21'']
             else Inr []
         | _ \<Rightarrow> Inr [mkError ''accessibility.minContrast'' ''minContrast must be a number'']))"

text \<open>
  \<open>validateBrandKit\<close>: the four sections push to one list of errors, in this order.
  \<open>Inl\<close> is an exception that leaves the function.
\<close>

definition validateBrandKit :: "json \<Rightarrow> jsError + validationResult" where
  "validateBrandKit kit =
     (if \<not> truthy kit \<or> typeof kit \<noteq> ''object''
      then Inr \<lparr> valid = False,
                 errors = [mkError ''root'' ''Brand kit must be a valid JSON object''] \<rparr>
      else
        bindE (validateName kit) (\<lambda>e1.
        bindE (validateAllowedColors kit) (\<lambda>e2.
        bindE (validateAllowedFonts kit) (\<lambda>e3.
        bindE (validateAccessibility kit) (\<lambda>e4.
          let errs = e1 @ e2 @ e3 @ e4
          in Inr \<lparr> valid = (length errs = 0), errors = errs \<rparr>)))))"
text \<open>An error whose field is the array itself or one of its entries.\<close>

definition fieldOf :: "string \<Rightarrow> validationError \<Rightarrow> bool" where
  "fieldOf arr e = (field e = arr \<or> (\<exists>i. field e = indexed arr i))"

section \<open>Nearest brand colour (brandConfig)\<close>

text \<open>
  \<open>findNearestBrandColor\<close> reads the kit through \<open>getBrandKit\<close>, so it takes the manager's
  cell. The inner \<open>normalize\<close> does not test for hexadecimal digits, so a channel may parse
  to NaN (\<open>None\<close>); the squared distance is then NaN and never less than the best.
\<close>

definition nearestNormalize :: "string option \<Rightarrow> string option" where
  "nearestNormalize hex =
     (case hex of
        None \<Rightarrow> None
      | Some h \<Rightarrow>
          if h = [] then None
          else
            let s0 = stripHash (trim h);
                s = (if length s0 = 3 then concat (map (\<lambda>c. [c, c]) s0) else s0)
            in if length s = 6 \<or> length s = 8 then Some (toUpperCase (take 6 s)) else None)"

definition nearestHexToRgb :: "string option \<Rightarrow> (int option \<times> int option \<times> int option) option" where
  "nearestHexToRgb hex6 =
     (case nearestNormalize hex6 of
        None \<Rightarrow> None
      | Some n \<Rightarrow>
          Some (parseInt16 (take 2 n), parseInt16 (take 2 (drop 2 n)), parseInt16 (take 2 (drop 4 n))))"

text \<open>The squared distance \<open>dr * dr + dg * dg + db * db\<close>; \<open>None\<close> is NaN.\<close>

definition dist2 ::
  "int option \<times> int option \<times> int option \<Rightarrow> int option \<times> int option \<times> int option \<Rightarrow> int option" where
  "dist2 c target =
     (case (c, target) of
        ((Some cr, Some cg, Some cb), (Some tr, Some tg, Some tb)) \<Rightarrow>
          Some ((cr - tr) * (cr - tr) + (cg - tg) * (cg - tg) + (cb - tb) * (cb - tb))
      | _ \<Rightarrow> None)"

text \<open>The loop over the candidates; \<open>bestDist\<close> is \<open>None\<close> while it is positive infinity.\<close>

fun nearestLoop ::
  "int option \<times> int option \<times> int option \<Rightarrow> string list \<Rightarrow> string option \<times> int option
   \<Rightarrow> string option \<times> int option" where
  "nearestLoop target [] acc = acc"
| "nearestLoop target (candidate # rest) (best, bestDist) =
     (case nearestHexToRgb (Some candidate) of
        None \<Rightarrow> nearestLoop target rest (best, bestDist)
      | Some c \<Rightarrow>
          (case dist2 c target of
             None \<Rightarrow> nearestLoop target rest (best, bestDist)
           | Some d \<Rightarrow>
               if (case bestDist of None \<Rightarrow> True | Some bd \<Rightarrow> d < bd)
               then nearestLoop target rest (Some candidate, Some d)
               else nearestLoop target rest (best, bestDist)))"

definition findNearestBrandColor :: "brandKit option \<Rightarrow> string option \<Rightarrow> string option" where
  "findNearestBrandColor manager inputHex =
     (let kit = getBrandKit manager
      in if inputHex = None \<or> inputHex = Some [] \<or> length (allowedColors kit) = 0 then None
         else
           (case nearestHexToRgb inputHex of
              None \<Rightarrow> None
            | Some target \<Rightarrow> fst (nearestLoop target (allowedColors kit) (None, None))))"

section \<open>The audit (ui/components/App)\<close>

text \<open>
  The functions of the component take \<open>kit\<close>, the kit in the component's state, and, where
  they call \<open>isFontAllowed\<close> without a list or \<open>findNearestBrandColor\<close>, also \<open>manager\<close>, the
  manager's cell at the time of the call.
\<close>

record ScannedElement =
  elem_id :: string
  elem_type :: string
  fillColor :: "string option"
  containerFillColor :: "string option"
  fontName :: "string option"
  textContent :: "string option"

text \<open>A nullable string used as a condition: null and the empty string are false.\<close>

definition present :: "string option \<Rightarrow> bool" where
  "present s = (case s of None \<Rightarrow> False | Some t \<Rightarrow> t \<noteq> [])"

text \<open>\<open>array[0]\<close>, which is \<open>undefined\<close> for an empty array.\<close>

definition first :: "'a list \<Rightarrow> 'a option" where
  "first xs = (case xs of [] \<Rightarrow> None | x # _ \<Rightarrow> Some x)"

text \<open>
  The contrast test that the audit, the unfixable scan and the suggestion each write out:
  AAA is used when \<open>minContrast\<close> is at least 7, AA otherwise, with \<open>largeText\<close> set for a
  text element.
\<close>

definition currentContrast :: "brandKit \<Rightarrow> bool \<Rightarrow> string \<Rightarrow> string \<Rightarrow> contrastResult" where
  "currentContrast kit isTextElement currentHex bgHex =
     calculateContrastRatio currentHex bgHex
       \<lparr> largeText = isTextElement, nonText = False, reportAAA = (minContrast kit \<ge> 7.0) \<rparr>"

definition contrastCompliant :: "brandKit \<Rightarrow> bool \<Rightarrow> string \<Rightarrow> string \<Rightarrow> bool" where
  "contrastCompliant kit isTextElement currentHex bgHex =
     (let isAAA = (minContrast kit \<ge> 7.0);
          contrastResult = currentContrast kit isTextElement currentHex bgHex
      in if isAAA then passesAAA contrastResult = Some True else passesAA contrastResult)"

text \<open>\<open>requiredContrast\<close>, also named \<open>requiredRatio\<close>: the large-text floor for a text element, \<open>minContrast\<close> otherwise.\<close>

definition requiredContrast :: "brandKit \<Rightarrow> bool \<Rightarrow> real" where
  "requiredContrast kit isTextElement =
     (if isTextElement then (if minContrast kit \<ge> 7.0 then 4.5 else 3.0) else minContrast kit)"

text \<open>The ratio of an allowed colour against the background, as every loop over the kit computes it.\<close>

definition brandRatio :: "bool \<Rightarrow> string \<Rightarrow> string \<Rightarrow> real" where
  "brandRatio isTextElement normalizedBrand bgHex =
     ratio (calculateContrastRatio normalizedBrand bgHex
              \<lparr> largeText = isTextElement, nonText = False, reportAAA = False \<rparr>)"

definition isBrandCompliant :: "brandKit \<Rightarrow> string \<Rightarrow> bool" where
  "isBrandCompliant kit currentHex =
     list_ex (\<lambda>brandHex. toUpperCase brandHex = toUpperCase currentHex) (allowedColors kit)"

definition hasBetterBrandColor :: "brandKit \<Rightarrow> bool \<Rightarrow> string \<Rightarrow> string \<Rightarrow> bool" where
  "hasBetterBrandColor kit isTextElement currentHex bgHex =
     (let currentRatio = ratio (currentContrast kit isTextElement currentHex bgHex)
      in list_ex
           (\<lambda>brandHex.
              case toHex6 (Some brandHex) of
                None \<Rightarrow> False
              | Some normalizedBrand \<Rightarrow>
                  if toUpperCase normalizedBrand = toUpperCase currentHex then False
                  else
                    let otherRatio = brandRatio isTextElement normalizedBrand bgHex
                    in otherRatio \<ge> requiredContrast kit isTextElement \<or> otherRatio > currentRatio + 0.5)
           (allowedColors kit))"

text \<open>
  The callback of \<open>results.filter\<close> in \<open>handleAudit\<close>: \<open>hasSomeViolation\<close> after the palette
  check, the contrast check and the font check.
\<close>

definition paletteViolation :: "brandKit \<Rightarrow> ScannedElement \<Rightarrow> bool" where
  "paletteViolation kit el =
     (if present (fillColor el) then
        (case toHex6 (fillColor el) of
           None \<Rightarrow> False
         | Some hexColor \<Rightarrow> \<not> isBrandCompliant kit (take 7 hexColor))
      else False)"

definition contrastViolation :: "brandKit \<Rightarrow> ScannedElement \<Rightarrow> bool" where
  "contrastViolation kit el =
     (if present (fillColor el) then
        (case toHex6 (fillColor el) of
           None \<Rightarrow> False
         | Some hexColor \<Rightarrow>
             let currentHex = take 7 hexColor in
             if present (containerFillColor el) then
               (case toHex6 (containerFillColor el) of
                  None \<Rightarrow> False
                | Some bgHex \<Rightarrow>
                    let isTextElement = (elem_type el = ''Text'') in
                    if \<not> contrastCompliant kit isTextElement currentHex bgHex then
                      (if isBrandCompliant kit currentHex
                       then hasBetterBrandColor kit isTextElement currentHex bgHex
                       else True)
                    else False)
             else False)
      else False)"

definition fontViolation :: "brandKit option \<Rightarrow> ScannedElement \<Rightarrow> bool" where
  "fontViolation manager el =
     (present (fontName el) \<and> \<not> isFontAllowed (fontName el) (allowedFonts (getBrandKit manager)))"

definition hasSomeViolation :: "brandKit \<Rightarrow> brandKit option \<Rightarrow> ScannedElement \<Rightarrow> bool" where
  "hasSomeViolation kit manager el =
     (paletteViolation kit el \<or> contrastViolation kit el \<or> fontViolation manager el)"

definition badElements ::
  "brandKit \<Rightarrow> brandKit option \<Rightarrow> ScannedElement list \<Rightarrow> ScannedElement list" where
  "badElements kit manager results = filter (hasSomeViolation kit manager) results"

text \<open>
  The score is computed in double arithmetic, and a percentage that lies exactly half-way
  between two integers is decided by the rounding of the division and of the multiplication.
  Both operations are therefore modelled with the binary64 rounding of the language: the
  exact result is rounded to the nearest number with a 53-bit significand, a tie going to
  the even significand. The counts and the constant 100 are integers below \<open>2 ^ 53\<close>, which
  doubles hold exactly, and every intermediate value is 0 or lies between \<open>2 ^ -32\<close> and 101,
  so neither overflow nor a subnormal result occurs. \<open>Math.round\<close> takes the integer nearest to
  its argument, the larger one at a tie.
\<close>

definition roundTiesToEven :: "real \<Rightarrow> int" where
  "roundTiesToEven y =
     (let f = \<lfloor>y\<rfloor>
      in if y - of_int f < 1/2 then f
         else if 1/2 < y - of_int f then f + 1
         else if even f then f else f + 1)"

definition toDouble :: "real \<Rightarrow> real" where
  "toDouble x =
     (if x = 0 then 0
      else let e = \<lfloor>log 2 \<bar>x\<bar>\<rfloor>; ulp = 2 powi (e - 52)
           in of_int (roundTiesToEven (x / ulp)) * ulp)"

definition mathRound :: "real \<Rightarrow> int" where
  "mathRound x = \<lfloor>x + 1/2\<rfloor>"

definition healthScoreOf :: "brandKit \<Rightarrow> brandKit option \<Rightarrow> ScannedElement list \<Rightarrow> int" where
  "healthScoreOf kit manager results =
     (let totalScannable = length results
      in if totalScannable > 0
         then mathRound
                (toDouble (toDouble (real (totalScannable - length (badElements kit manager results))
                                     / real totalScannable) * 100))
         else 100)"

record UnfixableContrastWarning =
  element :: ScannedElement
  currentRatio :: real
  bestPossibleRatio :: real
  bestBrandColor :: "string option"
  requiredRatio :: real
  wcagLevel :: string
  isCurrentBest :: bool

text \<open>The loop for the best ratio among all brand colours; it starts from \<open>(0, allowedColors[0])\<close>.\<close>

fun bestLoop :: "bool \<Rightarrow> string \<Rightarrow> string list \<Rightarrow> real \<times> string option \<Rightarrow> real \<times> string option" where
  "bestLoop isTextElement bgHex [] acc = acc"
| "bestLoop isTextElement bgHex (brandHex # rest) (bestRatio, bestColor) =
     (case toHex6 (Some brandHex) of
        None \<Rightarrow> bestLoop isTextElement bgHex rest (bestRatio, bestColor)
      | Some normalizedBrand \<Rightarrow>
          if brandRatio isTextElement normalizedBrand bgHex > bestRatio
          then bestLoop isTextElement bgHex rest
                 (brandRatio isTextElement normalizedBrand bgHex, Some brandHex)
          else bestLoop isTextElement bgHex rest (bestRatio, bestColor))"

text \<open>The body of the loop that collects the warnings: \<open>None\<close> when nothing is pushed for the element.\<close>

definition unfixableWarning :: "brandKit \<Rightarrow> ScannedElement \<Rightarrow> UnfixableContrastWarning option" where
  "unfixableWarning kit el =
     (if \<not> present (fillColor el) \<or> \<not> present (containerFillColor el) then None
      else
        (case (toHex6 (fillColor el), toHex6 (containerFillColor el)) of
           (Some hexColor, Some bgHex) \<Rightarrow>
             let currentHex = take 7 hexColor;
                 isTextElement = (elem_type el = ''Text'');
                 isAAA = (minContrast kit \<ge> 7.0);
                 currentContrastResult = currentContrast kit isTextElement currentHex bgHex
             in if isBrandCompliant kit currentHex \<and>
                   \<not> contrastCompliant kit isTextElement currentHex bgHex then
                  (let (bestRatio, bestColor) =
                         bestLoop isTextElement bgHex (allowedColors kit) (0, first (allowedColors kit))
                   in if bestRatio < requiredContrast kit isTextElement then
                        Some \<lparr> element = el,
                               currentRatio = ratio currentContrastResult,
                               bestPossibleRatio = bestRatio,
                               bestBrandColor = bestColor,
                               requiredRatio = requiredContrast kit isTextElement,
                               wcagLevel = (if isAAA then ''AAA'' else ''AA''),
                               isCurrentBest =
                                 (case toHex6 bestColor of
                                    None \<Rightarrow> False
                                  | Some bestColorNormalized \<Rightarrow>
                                      toUpperCase bestColorNormalized = toUpperCase currentHex) \<rparr>
                      else None)
                else None
         | _ \<Rightarrow> None))"

definition unfixableContrastWarnings ::
  "brandKit \<Rightarrow> ScannedElement list \<Rightarrow> UnfixableContrastWarning list" where
  "unfixableContrastWarnings kit results = List.map_filter (unfixableWarning kit) results"

section \<open>The colour suggestion (ui/components/App)\<close>

text \<open>\<open>array.reduce(f)\<close> with no initial value, on a non-empty array.\<close>

definition reduce1 :: "('a \<Rightarrow> 'a \<Rightarrow> 'a) \<Rightarrow> 'a \<Rightarrow> 'a list \<Rightarrow> 'a" where
  "reduce1 f x xs = foldl f x xs"

definition safeList :: "brandKit \<Rightarrow> bool \<Rightarrow> string \<Rightarrow> string \<Rightarrow> string list" where
  "safeList kit isTextElement currentHex bgHex =
     filter
       (\<lambda>color.
          case toHex6 (Some color) of
            None \<Rightarrow> False
          | Some normalizedColor \<Rightarrow>
              if toUpperCase normalizedColor = toUpperCase currentHex then False
              else brandRatio isTextElement normalizedColor bgHex \<ge> requiredContrast kit isTextElement)
       (allowedColors kit)"

definition fallbackList :: "brandKit \<Rightarrow> string \<Rightarrow> string list" where
  "fallbackList kit currentHex =
     filter
       (\<lambda>color.
          case toHex6 (Some color) of
            None \<Rightarrow> False
          | Some normalizedColor \<Rightarrow> toUpperCase normalizedColor \<noteq> toUpperCase currentHex)
       (allowedColors kit)"

definition closer :: "string \<Rightarrow> string \<Rightarrow> string \<Rightarrow> string" where
  "closer currentHex best color =
     (let bestDist = colorDistance best currentHex;
          currDist = colorDistance color currentHex
      in if currDist < bestDist then color else best)"

definition higher :: "bool \<Rightarrow> string \<Rightarrow> string \<Rightarrow> string \<Rightarrow> string" where
  "higher isTextElement bgHex best color =
     (case (toHex6 (Some best), toHex6 (Some color)) of
        (Some bestNormalized, Some colorNormalized) \<Rightarrow>
          if brandRatio isTextElement colorNormalized bgHex > brandRatio isTextElement bestNormalized bgHex
          then color else best
      | _ \<Rightarrow> best)"

text \<open>\<open>findNearestBrandColor(currentHex) || brandKit.allowedColors[0]\<close>.\<close>

definition nearestOrFirst :: "brandKit \<Rightarrow> brandKit option \<Rightarrow> string \<Rightarrow> string option" where
  "nearestOrFirst kit manager currentHex =
     (case findNearestBrandColor manager (Some currentHex) of
        None \<Rightarrow> first (allowedColors kit)
      | Some c \<Rightarrow> if c = [] then first (allowedColors kit) else Some c)"

text \<open>\<open>determineSuggestedColor\<close>; the result \<open>None\<close> is \<open>undefined\<close>, which an empty kit gives.\<close>

definition determineSuggestedColor ::
  "brandKit \<Rightarrow> brandKit option \<Rightarrow> ScannedElement \<Rightarrow> string option" where
  "determineSuggestedColor kit manager el =
     (case toHex6 (fillColor el) of
        None \<Rightarrow> first (allowedColors kit)
      | Some currentHex \<Rightarrow>
          let isTextElement = (elem_type el = ''Text'');
              isContrastCompliant =
                (if present (containerFillColor el) then
                   (case toHex6 (containerFillColor el) of
                      None \<Rightarrow> True
                    | Some bgHex \<Rightarrow> contrastCompliant kit isTextElement currentHex bgHex)
                 else True)
          in if \<not> isContrastCompliant \<and> present (containerFillColor el) then
               (case toHex6 (containerFillColor el) of
                  None \<Rightarrow> nearestOrFirst kit manager currentHex
                | Some bgHex \<Rightarrow>
                    (case safeList kit isTextElement currentHex bgHex of
                       s # ss \<Rightarrow> Some (reduce1 (closer currentHex) s ss)
                     | [] \<Rightarrow>
                         (case fallbackList kit currentHex of
                            f # fs \<Rightarrow> Some (reduce1 (higher isTextElement bgHex) f fs)
                          | [] \<Rightarrow>
                              (case find
                                      (\<lambda>color.
                                         case toHex6 (Some color) of
                                           None \<Rightarrow> False
                                         | Some normalizedColor \<Rightarrow>
                                             toUpperCase normalizedColor \<noteq> toUpperCase currentHex)
                                      (allowedColors kit) of
                                 None \<Rightarrow> first (allowedColors kit)
                               | Some differentColor \<Rightarrow>
                                   if differentColor = [] then first (allowedColors kit)
                                   else Some differentColor))))
             else nearestOrFirst kit manager currentHex)"

section \<open>Example values\<close>

text \<open>The kit and the elements of the specification's examples, used where a theorem is applied to a concrete input.\<close>

definition exampleKit :: "string list \<Rightarrow> real \<Rightarrow> brandKit" where
  "exampleKit colors contrast =
     \<lparr> name = ''Example'', allowedColors = colors, allowedFonts = [''Arial'', ''Georgia''],
       minContrast = contrast \<rparr>"

definition exampleElement ::
  "string \<Rightarrow> string \<Rightarrow> string option \<Rightarrow> string option \<Rightarrow> string option \<Rightarrow> ScannedElement" where
  "exampleElement i t fill bg font =
     \<lparr> elem_id = i, elem_type = t, fillColor = fill, containerFillColor = bg, fontName = font,
       textContent = None \<rparr>"

section \<open>Fix all and undo all (ui/components/App)\<close>

text \<open>
  The document sandbox changes the host document through the host's SDK, which is not
  part of the source. It is a parameter here: a scan and four operations that take the
  document, a node id and a value, and give the document after the call and the success
  flag.
\<close>

record 'd provider =
  scanDocument :: "'d \<Rightarrow> ScannedElement list"
  fixColor :: "'d \<Rightarrow> string \<Rightarrow> string \<Rightarrow> 'd \<times> bool"
  fixFont :: "'d \<Rightarrow> string \<Rightarrow> string \<Rightarrow> 'd \<times> bool"
  restoreColor :: "'d \<Rightarrow> string \<Rightarrow> string \<Rightarrow> 'd \<times> bool"
  restoreFont :: "'d \<Rightarrow> string \<Rightarrow> string \<Rightarrow> 'd \<times> bool"

text \<open>
  The snapshot is a \<open>Map\<close> from node id to colour and font: \<open>set\<close> replaces the value of a
  key that is there and appends a new key; iteration follows the order of insertion.
\<close>

type_synonym snapshot = "(string \<times> (string option \<times> string option)) list"

fun mapSet :: "'k \<Rightarrow> 'v \<Rightarrow> ('k \<times> 'v) list \<Rightarrow> ('k \<times> 'v) list" where
  "mapSet k v [] = [(k, v)]"
| "mapSet k v ((k', v') # rest) =
     (if k' = k then (k, v) # rest else (k', v') # mapSet k v rest)"

text \<open>The state of the component that the handlers read and set, and the document.\<close>

record 'd app =
  doc :: 'd
  elements :: "ScannedElement list"
  violations :: "ScannedElement list"
  healthScore :: int
  unfixableWarnings :: "UnfixableContrastWarning list"
  fixAllSnapshot :: "snapshot option"

definition handleAudit :: "'d provider \<Rightarrow> brandKit \<Rightarrow> brandKit option \<Rightarrow> 'd app \<Rightarrow> 'd app" where
  "handleAudit P kit manager st =
     (let results = scanDocument P (doc st)
      in st\<lparr> elements := results,
              unfixableWarnings := unfixableContrastWarnings kit results,
              violations := badElements kit manager results,
              healthScore := healthScoreOf kit manager results \<rparr>)"

text \<open>
  \<open>handleFix\<close>: when the font fix is refused the handler throws and catches, so the audit
  that would follow is skipped.
\<close>

definition handleFix ::
  "'d provider \<Rightarrow> brandKit \<Rightarrow> brandKit option \<Rightarrow> 'd app \<Rightarrow> ScannedElement \<Rightarrow> 'd app" where
  "handleFix P kit manager st el =
     (if elem_id el = [] then st
      else
        let suggestedColor = determineSuggestedColor kit manager el;
            needsFontFix =
              (present (fontName el) \<and>
               \<not> isFontAllowed (fontName el) (allowedFonts (getBrandKit manager)));
            suggestedFont = (if needsFontFix then first (allowedFonts kit) else None);
            d1 = (case suggestedColor of
                    None \<Rightarrow> doc st
                  | Some c \<Rightarrow> if c = [] then doc st else fst (fixColor P (doc st) (elem_id el) c))
        in case suggestedFont of
             None \<Rightarrow> handleAudit P kit manager (st\<lparr> doc := d1 \<rparr>)
           | Some f \<Rightarrow>
               if needsFontFix \<and> f \<noteq> [] then
                 (let (d2, ok) = fixFont P d1 (elem_id el) f
                  in if \<not> ok then st\<lparr> doc := d2 \<rparr>
                     else handleAudit P kit manager (st\<lparr> doc := d2 \<rparr>))
               else handleAudit P kit manager (st\<lparr> doc := d1 \<rparr>))"

text \<open>\<open>currentStateMap.get(id)\<close>: the last scanned element with the id.\<close>

definition currentState :: "ScannedElement list \<Rightarrow> string \<Rightarrow> ScannedElement option" where
  "currentState currentResults i = map_of (rev (map (\<lambda>e. (elem_id e, e)) currentResults)) i"

definition captureEntry :: "ScannedElement list \<Rightarrow> snapshot \<Rightarrow> ScannedElement \<Rightarrow> snapshot" where
  "captureEntry currentResults snap violationEl =
     (case currentState currentResults (elem_id violationEl) of
        Some currentEl \<Rightarrow>
          mapSet (elem_id violationEl) (fillColor currentEl, fontName currentEl) snap
      | None \<Rightarrow>
          mapSet (elem_id violationEl) (fillColor violationEl, fontName violationEl) snap)"

definition captureSnapshot :: "ScannedElement list \<Rightarrow> ScannedElement list \<Rightarrow> snapshot" where
  "captureSnapshot currentResults vs = foldl (captureEntry currentResults) [] vs"

definition handleFixAll :: "'d provider \<Rightarrow> brandKit \<Rightarrow> brandKit option \<Rightarrow> 'd app \<Rightarrow> 'd app" where
  "handleFixAll P kit manager st =
     (let currentResults = scanDocument P (doc st)
      in if length (violations st) > 0 then
           foldl (handleFix P kit manager)
             (st\<lparr> fixAllSnapshot := Some (captureSnapshot currentResults (violations st)) \<rparr>)
             (violations st)
         else st)"

definition restoreEntry ::
  "'d provider \<Rightarrow> 'd \<Rightarrow> string \<times> (string option \<times> string option) \<Rightarrow> 'd" where
  "restoreEntry P d entry =
     (case entry of (nodeId, (color, font)) \<Rightarrow>
        let d1 = (case color of
                    None \<Rightarrow> d
                  | Some c \<Rightarrow> if c = [] then d else fst (restoreColor P d nodeId c));
            d2 = (case font of
                    None \<Rightarrow> d1
                  | Some f \<Rightarrow> if f = [] then d1 else fst (restoreFont P d1 nodeId f))
        in d2)"

definition handleUndoAll :: "'d provider \<Rightarrow> brandKit \<Rightarrow> brandKit option \<Rightarrow> 'd app \<Rightarrow> 'd app" where
  "handleUndoAll P kit manager st =
     (case fixAllSnapshot st of
        None \<Rightarrow> st
      | Some snap \<Rightarrow>
          handleAudit P kit manager
            (st\<lparr> doc := foldl (restoreEntry P) (doc st) snap, fixAllSnapshot := None \<rparr>))"

section \<open>The document sandbox (sandbox/code)\<close>

text \<open>
  The sandbox of the repository, with the host document kept as the list of its nodes in
  scan order, each node as the scan reports it. The steps of the host's SDK are taken to
  succeed: a node that is found takes any colour that passes the sandbox's own checks, and
  a text node takes any font that has a PostScript mapping. A scan reports a colour as
  eight upper-case digits with the alpha last (\<open>FF\<close> when none was given), and a font by
  its family name.
\<close>

definition reportedHex :: "string \<Rightarrow> string" where
  "reportedHex s =
     CHR ''#'' # toUpperCase (take 6 s) @ (if length s = 8 then toUpperCase (drop 6 s) else ''FF'')"

text \<open>\<open>findById\<close> stops at the first node with the id; the change is made to that node.\<close>

fun updateNode ::
  "string \<Rightarrow> (ScannedElement \<Rightarrow> ScannedElement) \<Rightarrow> ScannedElement list \<Rightarrow> ScannedElement list" where
  "updateNode nodeId f [] = []"
| "updateNode nodeId f (e # rest) =
     (if elem_id e = nodeId then f e # rest else e # updateNode nodeId f rest)"

text \<open>\<open>fixColor\<close> and \<open>restoreColor\<close>, which have the same body.\<close>

definition applyColor :: "ScannedElement list \<Rightarrow> string \<Rightarrow> string \<Rightarrow> ScannedElement list \<times> bool" where
  "applyColor d nodeId correctHex =
     (case find (\<lambda>e. elem_id e = nodeId) d of
        None \<Rightarrow> (d, False)
      | Some targetNode \<Rightarrow>
          let s = stripHash (trim correctHex) in
          if \<not> allHex s then (d, False)
          else if \<not> (length s = 6 \<or> length s = 8) then (d, False)
          else (updateNode nodeId (\<lambda>e. e\<lparr> fillColor := Some (reportedHex s) \<rparr>) d, True))"

text \<open>The keys of \<open>fontPostScriptMap\<close>, each with the family name that a scan reports afterwards.\<close>

definition fontPostScriptMap :: "(string \<times> string) list" where
  "fontPostScriptMap = [(''arial'', ''Arial''), (''courier'', ''Courier''), (''georgia'', ''Georgia'')]"

text \<open>\<open>fixFont\<close> and \<open>restoreFont\<close>, which have the same body.\<close>

definition applyFont :: "ScannedElement list \<Rightarrow> string \<Rightarrow> string \<Rightarrow> ScannedElement list \<times> bool" where
  "applyFont d nodeId fontFamily =
     (case find (\<lambda>e. elem_id e = nodeId) d of
        None \<Rightarrow> (d, False)
      | Some targetNode \<Rightarrow>
          if elem_type targetNode \<noteq> ''Text'' then (d, False)
          else
            (case normalizeFontName (Some fontFamily) of
               None \<Rightarrow> (d, False)
             | Some normalizedFamily \<Rightarrow>
                 if normalizedFamily = [] then (d, False)
                 else
                   (case map_of fontPostScriptMap normalizedFamily of
                      None \<Rightarrow> (d, False)
                    | Some family \<Rightarrow>
                        (updateNode nodeId (\<lambda>e. e\<lparr> fontName := Some family \<rparr>) d, True))))"

definition sandbox :: "(ScannedElement list) provider" where
  "sandbox =
     \<lparr> scanDocument = (\<lambda>d. d),
       fixColor = applyColor,
       fixFont = applyFont,
       restoreColor = applyColor,
       restoreFont = applyFont \<rparr>"

definition idle :: "ScannedElement list \<Rightarrow> (ScannedElement list) app" where
  "idle d =
     \<lparr> doc = d, elements = [], violations = [], healthScore = 100, unfixableWarnings = [],
       fixAllSnapshot = None \<rparr>"

text \<open>
  A document of two nodes, a red rectangle and a navy text set in Courier; the document
  after the rectangle is made navy and the text set in Arial, and after only the rectangle
  is changed. Two kits whose only colour is navy: one allows Arial and Georgia, the other
  Lato, a font that validation accepts and for which the sandbox has no PostScript mapping.
  \<open>firstBatch\<close> is the state after one audit and one batch fix, with the kit loaded in the
  manager and held by the component.
\<close>

definition exampleDoc :: "ScannedElement list" where
  "exampleDoc =
     [exampleElement ''el1'' ''Rectangle'' (Some ''#FF0000FF'') None None,
      exampleElement ''el2'' ''Text'' (Some ''#232D4BFF'') None (Some ''Courier'')]"

definition fixedDoc :: "ScannedElement list" where
  "fixedDoc =
     [exampleElement ''el1'' ''Rectangle'' (Some ''#232D4BFF'') None None,
      exampleElement ''el2'' ''Text'' (Some ''#232D4BFF'') None (Some ''Arial'')]"

definition halfFixedDoc :: "ScannedElement list" where
  "halfFixedDoc =
     [exampleElement ''el1'' ''Rectangle'' (Some ''#232D4BFF'') None None,
      exampleElement ''el2'' ''Text'' (Some ''#232D4BFF'') None (Some ''Courier'')]"

definition navyKit :: brandKit where
  "navyKit = exampleKit [''#232D4B''] 4.5"

definition latoKit :: brandKit where
  "latoKit = \<lparr> name = ''Lato kit'', allowedColors = [''#232D4B''], allowedFonts = [''Lato''],
               minContrast = 4.5 \<rparr>"

definition firstBatch :: "brandKit \<Rightarrow> (ScannedElement list) app" where
  "firstBatch kit =
     handleFixAll sandbox kit (Some kit) (handleAudit sandbox kit (Some kit) (idle exampleDoc))"

section \<open>Properties of the colour utilities\<close>

lemma not_isHexDigit_hash: "\<not> isHexDigit CHR ''#''"
  by (simp add: isHexDigit_def hexVal_def)

lemma stripHash_shapes:
  assumes "allHex d"
  shows "stripHash t = d \<longleftrightarrow> (t = d \<or> t = CHR ''#'' # d)"
proof -
  from assms obtain c cs where d: "d = c # cs" and c: "isHexDigit c"
    by (cases d) (auto simp: allHex_def)
  from c have ne: "c \<noteq> CHR ''#''" using not_isHexDigit_hash by auto
  show ?thesis
    by (cases t) (auto simp: stripHash_def d ne)
qed

lemma upperChar_eq_zero: "upperChar c = CHR ''0'' \<longleftrightarrow> c = CHR ''0''"
  by (simp add: upperChar_def)

lemma toUpperCase_zeros: "toUpperCase s = ''000000'' \<longleftrightarrow> s = ''000000''"
  by (auto simp: toUpperCase_def upperChar_eq_zero map_eq_Cons_conv)

lemmas string_eval =
  trim_def trimStart_def stripHash_def allHex_def isHexDigit_def isSpace_def
  toUpperCase_def toLowerCase_def upperChar_def lowerChar_def hexVal_def


text \<open>
  C6. \<open>toHex6\<close> accepts exactly the inputs whose trimmed text is six or eight hexadecimal
  digits, with or without one leading number sign, and rejects every other input (the
  three-digit shape \<open>#RGB\<close> too). For six digits the result is the number sign and the
  digits in upper case. For eight digits the last six digits are taken when the first six
  are all zero, and the first six otherwise.
\<close>

theorem toHex6_shapes:
  "(toHex6 (Some h) \<noteq> None \<longleftrightarrow>
      (\<exists>d. allHex d \<and> (length d = 6 \<or> length d = 8) \<and> (trim h = d \<or> trim h = CHR ''#'' # d)))
   \<and> (\<forall>d. allHex d \<and> (trim h = d \<or> trim h = CHR ''#'' # d) \<longrightarrow>
         (length d = 6 \<longrightarrow> toHex6 (Some h) = Some (CHR ''#'' # toUpperCase d)) \<and>
         (length d = 8 \<longrightarrow> toHex6 (Some h) =
            Some (CHR ''#'' # toUpperCase (if take 6 d = ''000000'' then drop 2 d else take 6 d))) \<and>
         (length d \<noteq> 6 \<and> length d \<noteq> 8 \<longrightarrow> toHex6 (Some h) = None))"
proof -
  have empty: "h = [] \<Longrightarrow> trim h = []" by (simp add: trim_def)
  have nonhex: "\<not> allHex []" by (simp add: allHex_def)
  have A: "toHex6 (Some h) \<noteq> None \<longleftrightarrow>
      allHex (stripHash (trim h)) \<and>
      (length (stripHash (trim h)) = 6 \<or> length (stripHash (trim h)) = 8)"
    using empty nonhex by (auto simp: toHex6_def Let_def stripHash_def)
  have B: "allHex d \<Longrightarrow> (trim h = d \<or> trim h = CHR ''#'' # d) \<Longrightarrow>
      stripHash (trim h) = d \<and> h \<noteq> []" for d
    using stripHash_shapes[of d "trim h"] empty nonhex by auto
  have C: "allHex (stripHash (trim h)) \<Longrightarrow>
      trim h = stripHash (trim h) \<or> trim h = CHR ''#'' # stripHash (trim h)"
    using stripHash_shapes[of "stripHash (trim h)" "trim h"] by simp
  show ?thesis
  proof (intro conjI allI impI)
    show "toHex6 (Some h) \<noteq> None \<longleftrightarrow>
      (\<exists>d. allHex d \<and> (length d = 6 \<or> length d = 8) \<and> (trim h = d \<or> trim h = CHR ''#'' # d))"
      unfolding A using B C by metis
  next
    fix d assume "allHex d \<and> (trim h = d \<or> trim h = CHR ''#'' # d)" "length d = 6"
    then show "toHex6 (Some h) = Some (CHR ''#'' # toUpperCase d)"
      using B[of d] by (simp add: toHex6_def)
  next
    fix d assume "allHex d \<and> (trim h = d \<or> trim h = CHR ''#'' # d)" "length d = 8"
    then show "toHex6 (Some h) =
        Some (CHR ''#'' # toUpperCase (if take 6 d = ''000000'' then drop 2 d else take 6 d))"
      using B[of d] by (simp add: toHex6_def toUpperCase_zeros)
  next
    fix d
    assume "allHex d \<and> (trim h = d \<or> trim h = CHR ''#'' # d)" "length d \<noteq> 6 \<and> length d \<noteq> 8"
    then show "toHex6 (Some h) = None"
      using B[of d] by (simp add: toHex6_def)
  qed
qed

theorem toHex6_shapes_witness:
  "toHex6 (Some '' #00000012 '') = Some ''#000012'' \<and> toHex6 (Some ''ab12Cd'') = Some ''#AB12CD''
   \<and> toHex6 (Some ''#12345678'') = Some ''#123456'' \<and> toHex6 (Some ''#1234567'') = None"
  using toHex6_shapes[of "'' #00000012 ''"] toHex6_shapes[of "''ab12Cd''"]
    toHex6_shapes[of "''#12345678''"] toHex6_shapes[of "''#1234567''"]
  by (simp add: toHex6_def string_eval)

text \<open>
  C6, as stated, fails: the shape \<open>#RGB\<close> is rejected, and an input that contains white
  space around the digits, so that it has non-hexadecimal characters and another length,
  is accepted.
\<close>

theorem toHex6_rejects_three_digits:
  "toHex6 (Some ''#FFF'') = None \<and> toHex6 (Some '' #ffffff '') = Some ''#FFFFFF''"
  by (simp add: toHex6_def string_eval)

text \<open>
  C7. The contrast computation returns \<open>requiredAA\<close> 3.0 for large text or a non-text
  element and 4.5 otherwise, and \<open>passesAA\<close> says whether the ratio reaches it. When AAA is
  requested, \<open>requiredAAA\<close> is 4.5 for large text and 7.0 otherwise, whatever the non-text
  flag says, and \<open>passesAAA\<close> says whether the ratio reaches it; when AAA is not requested
  both AAA fields are absent.
\<close>

theorem calculateContrastRatio_thresholds:
  "ratio (calculateContrastRatio hex1 hex2 opts) = contrastRatio hex1 hex2 \<and>
   requiredAA (calculateContrastRatio hex1 hex2 opts) =
     (if largeText opts \<or> nonText opts then 3.0 else 4.5) \<and>
   passesAA (calculateContrastRatio hex1 hex2 opts) =
     (contrastRatio hex1 hex2 \<ge> (if largeText opts \<or> nonText opts then 3.0 else 4.5)) \<and>
   (reportAAA opts \<longrightarrow>
      requiredAAA (calculateContrastRatio hex1 hex2 opts) =
        Some (if largeText opts then 4.5 else 7.0) \<and>
      passesAAA (calculateContrastRatio hex1 hex2 opts) =
        Some (contrastRatio hex1 hex2 \<ge> (if largeText opts then 4.5 else 7.0))) \<and>
   (\<not> reportAAA opts \<longrightarrow>
      requiredAAA (calculateContrastRatio hex1 hex2 opts) = None \<and>
      passesAAA (calculateContrastRatio hex1 hex2 opts) = None)"
  by (simp add: calculateContrastRatio_def Let_def)

theorem calculateContrastRatio_thresholds_witness:
  "requiredAAA (calculateContrastRatio ''#000000'' ''#FFFFFF''
      \<lparr> largeText = True, nonText = False, reportAAA = True \<rparr>) = Some 4.5 \<and>
   requiredAAA (calculateContrastRatio ''#000000'' ''#FFFFFF''
      \<lparr> largeText = False, nonText = False, reportAAA = False \<rparr>) = None"
  using calculateContrastRatio_thresholds[of "''#000000''" "''#FFFFFF''"
      "\<lparr> largeText = True, nonText = False, reportAAA = True \<rparr>"]
    calculateContrastRatio_thresholds[of "''#000000''" "''#FFFFFF''"
      "\<lparr> largeText = False, nonText = False, reportAAA = False \<rparr>"]
  by simp

text \<open>
  C7, as stated, fails for a non-text element that is not large text: its \<open>requiredAA\<close> is
  3.0 but its \<open>requiredAAA\<close> is 7.0, not 4.5.
\<close>

theorem requiredAAA_nonText_is_seven:
  "requiredAAA (calculateContrastRatio ''#000000'' ''#FFFFFF''
      \<lparr> largeText = False, nonText = True, reportAAA = True \<rparr>) = Some 7.0 \<and>
   requiredAA (calculateContrastRatio ''#000000'' ''#FFFFFF''
      \<lparr> largeText = False, nonText = True, reportAAA = True \<rparr>) = 3.0"
  by (simp add: calculateContrastRatio_def Let_def)

section \<open>Properties of the font check\<close>

lemma fontMatches_member:
  assumes "a \<in> set fonts" and "normalizeFontName (Some a) = Some an" and "an \<noteq> []"
    and "fn = an \<or> prefix (an @ [sep]) fn" and "sep \<in> {CHR '' '', CHR ''-'', CHR ''_''}"
  shows "fontMatches fn fonts"
  using assms
proof (induction fonts)
  case Nil
  then show ?case by simp
next
  case (Cons x xs)
  show ?case
  proof (cases "x = a")
    case True
    with Cons.prems show ?thesis by auto
  next
    case False
    with Cons have "fontMatches fn xs" by simp
    then show ?thesis by (auto split: option.splits)
  qed
qed

text \<open>
  C10. \<open>isFontAllowed\<close> returns true for every font name whose trimmed, lower-cased form
  equals that of an allowed font, or begins with it followed by a space, a hyphen or an
  underscore and any suffix at all: the suffix is not restricted to style words. The
  allowed font is one whose trimmed name is not empty, as validation requires of a kit.
  It returns true when the font name is null, undefined or empty.
\<close>

theorem isFontAllowed_variants:
  "(a \<in> set fonts \<and> normalizeFontName (Some a) = Some an \<and> an \<noteq> [] \<and>
    normalizeFontName (Some f) = Some fn \<and>
    (fn = an \<or> (\<exists>sep suffix. sep \<in> {CHR '' '', CHR ''-'', CHR ''_''} \<and> fn = an @ sep # suffix))
    \<longrightarrow> isFontAllowed (Some f) fonts)
   \<and> isFontAllowed None fonts \<and> isFontAllowed (Some []) fonts"
proof (intro conjI impI)
  assume h: "a \<in> set fonts \<and> normalizeFontName (Some a) = Some an \<and> an \<noteq> [] \<and>
    normalizeFontName (Some f) = Some fn \<and>
    (fn = an \<or> (\<exists>sep suffix. sep \<in> {CHR '' '', CHR ''-'', CHR ''_''} \<and> fn = an @ sep # suffix))"
  then consider "fn = an"
    | sep suffix where "sep \<in> {CHR '' '', CHR ''-'', CHR ''_''}" "fn = an @ sep # suffix"
    by blast
  then have "fontMatches fn fonts"
  proof cases
    case 1
    with h show ?thesis using fontMatches_member[of a fonts an fn "CHR '' ''"] by simp
  next
    case 2
    then have "prefix (an @ [sep]) fn" by (simp add: prefix_def)
    with h 2 show ?thesis using fontMatches_member[of a fonts an fn sep] by simp
  qed
  with h show "isFontAllowed (Some f) fonts"
    by (auto simp: isFontAllowed_def split: option.splits)
qed (simp_all add: isFontAllowed_def)

theorem isFontAllowed_variants_witness:
  "isFontAllowed (Some '' ARIAL anything at all'') [''Georgia'', ''Arial'']"
  using isFontAllowed_variants[of "''Arial''" "[''Georgia'', ''Arial'']" "''arial''"
      "'' ARIAL anything at all''" "''arial anything at all''"]
  by (simp add: normalizeFontName_def string_eval)

text \<open>
  A blank entry of the allowed list is skipped by the loop, so it matches no name: the name
  \<open>-x\<close> is not allowed by a list whose only entry is empty or a space.
\<close>

lemma isFontAllowed_blank_entry_skipped:
  "\<not> isFontAllowed (Some ''-x'') [''''] \<and> \<not> isFontAllowed (Some ''-x'') ['' '']"
  by (simp add: isFontAllowed_def normalizeFontName_def string_eval)
section \<open>Properties of the validation\<close>

lemma typeof_string: "typeof v = ''string'' \<longleftrightarrow> (\<exists>s. v = JStr s)"
  by (cases v) (simp_all add: typeof_def)

lemma field_mkError [simp]: "field (mkError f m) = f"
  by (simp add: mkError_def)

lemma fieldOf_fonts:
  "fieldOf ''allowedFonts'' e \<Longrightarrow> \<not> prefix ''allowedColors'' (field e) \<and> field e \<noteq> ''root''"
  by (auto simp: fieldOf_def indexed_def)

lemma fieldOf_colors:
  "fieldOf ''allowedColors'' e \<Longrightarrow> prefix ''allowedColors'' (field e) \<and> field e \<noteq> ''root''"
  by (auto simp: fieldOf_def indexed_def)

lemma checkFont_shape:
  "\<exists>es seen. checkFont i c m = Inr (es, seen) \<and> (\<forall>e\<in>set es. fieldOf ''allowedFonts'' e)"
proof (cases "\<exists>s. c = JStr s")
  case True
  then obtain s where "c = JStr s" by blast
  then show ?thesis
    by (auto simp: checkFont_def bindE_def jsTrim_def typeof_def Let_def fieldOf_def)
next
  case False
  then have "typeof c \<noteq> ''string''" by (simp add: typeof_string)
  then show ?thesis by (auto simp: checkFont_def fieldOf_def)
qed

lemma fontsLoop_shape:
  "\<exists>es. fontsLoop i xs m = Inr es \<and> (\<forall>e\<in>set es. fieldOf ''allowedFonts'' e)"
proof (induction xs arbitrary: i m)
  case Nil
  then show ?case by simp
next
  case (Cons c cs)
  obtain es seen where c: "checkFont i c m = Inr (es, seen)"
    and f: "\<forall>e\<in>set es. fieldOf ''allowedFonts'' e"
    using checkFont_shape by blast
  obtain more where m: "fontsLoop (Suc i) cs seen = Inr more"
    and g: "\<forall>e\<in>set more. fieldOf ''allowedFonts'' e"
    using Cons.IH by blast
  from c m have "fontsLoop i (c # cs) m = Inr (es @ more)" by (simp add: bindE_def)
  moreover from f g have "\<forall>e\<in>set (es @ more). fieldOf ''allowedFonts'' e" by auto
  ultimately show ?case by blast
qed

lemma checkColor_shape:
  "\<exists>es seen. checkColor i c m = Inr (es, seen) \<and> (\<forall>e\<in>set es. fieldOf ''allowedColors'' e)"
proof (cases "\<exists>s. c = JStr s")
  case True
  then obtain s where "c = JStr s" by blast
  then show ?thesis
    by (auto simp: checkColor_def bindE_def jsTrim_def typeof_def Let_def fieldOf_def
             split: option.splits)
next
  case False
  then have "typeof c \<noteq> ''string''" by (simp add: typeof_string)
  then show ?thesis by (auto simp: checkColor_def fieldOf_def)
qed

lemma colorsLoop_shape:
  "\<exists>es. colorsLoop i xs m = Inr es \<and> (\<forall>e\<in>set es. fieldOf ''allowedColors'' e)"
proof (induction xs arbitrary: i m)
  case Nil
  then show ?case by simp
next
  case (Cons c cs)
  obtain es seen where c: "checkColor i c m = Inr (es, seen)"
    and f: "\<forall>e\<in>set es. fieldOf ''allowedColors'' e"
    using checkColor_shape by blast
  obtain more where m: "colorsLoop (Suc i) cs seen = Inr more"
    and g: "\<forall>e\<in>set more. fieldOf ''allowedColors'' e"
    using Cons.IH by blast
  from c m have "colorsLoop i (c # cs) m = Inr (es @ more)" by (simp add: bindE_def)
  moreover from f g have "\<forall>e\<in>set (es @ more). fieldOf ''allowedColors'' e" by auto
  ultimately show ?case by blast
qed

lemma getProp_object:
  "truthy kit \<Longrightarrow> typeof kit = ''object'' \<Longrightarrow> \<exists>v. getProp kit key = Inr v"
  by (cases kit) (simp_all add: truthy_def typeof_def getProp_def split: option.splits)

lemma validateName_returns:
  assumes "truthy kit" "typeof kit = ''object''"
  shows "\<exists>es. validateName kit = Inr es \<and> (\<forall>e\<in>set es. field e = ''name'')"
proof -
  obtain v where v: "getProp kit ''name'' = Inr v" using getProp_object[OF assms] by blast
  show ?thesis
    by (cases v) (simp_all add: validateName_def v bindE_def truthy_def typeof_def jsTrim_def)
qed

lemma validateAllowedColors_returns:
  assumes "truthy kit" "typeof kit = ''object''"
  shows "\<exists>es. validateAllowedColors kit = Inr es \<and> (\<forall>e\<in>set es. fieldOf ''allowedColors'' e)"
proof -
  obtain v where v: "getProp kit ''allowedColors'' = Inr v" using getProp_object[OF assms] by blast
  show ?thesis
  proof (cases "\<exists>xs. v = JArr xs \<and> xs \<noteq> []")
    case True
    then obtain xs where xs: "v = JArr xs" "xs \<noteq> []" by blast
    then have "validateAllowedColors kit = colorsLoop 0 xs []"
      by (simp add: validateAllowedColors_def v bindE_def isArray_def jsElements_def)
    then show ?thesis using colorsLoop_shape[of 0 xs "[]"] by simp
  next
    case False
    then show ?thesis
      by (cases v)
         (auto simp: validateAllowedColors_def v bindE_def isArray_def jsElements_def fieldOf_def)
  qed
qed

lemma validateAllowedFonts_returns:
  assumes "truthy kit" "typeof kit = ''object''"
  shows "\<exists>es. validateAllowedFonts kit = Inr es \<and> (\<forall>e\<in>set es. fieldOf ''allowedFonts'' e)"
proof -
  obtain v where v: "getProp kit ''allowedFonts'' = Inr v" using getProp_object[OF assms] by blast
  show ?thesis
  proof (cases "\<exists>xs. v = JArr xs \<and> xs \<noteq> []")
    case True
    then obtain xs where xs: "v = JArr xs" "xs \<noteq> []" by blast
    then have "validateAllowedFonts kit = fontsLoop 0 xs []"
      by (simp add: validateAllowedFonts_def v bindE_def isArray_def jsElements_def)
    then show ?thesis using fontsLoop_shape[of 0 xs "[]"] by simp
  next
    case False
    then show ?thesis
      by (cases v)
         (auto simp: validateAllowedFonts_def v bindE_def isArray_def jsElements_def fieldOf_def)
  qed
qed

lemma validateAccessibility_returns:
  assumes "truthy kit" "typeof kit = ''object''"
  shows "\<exists>es. validateAccessibility kit = Inr es \<and>
    (\<forall>e\<in>set es. field e = ''accessibility'' \<or> field e = ''accessibility.minContrast'')"
proof -
  obtain v where v: "getProp kit ''accessibility'' = Inr v" using getProp_object[OF assms] by blast
  show ?thesis
  proof (cases "truthy v \<and> typeof v = ''object''")
    case True
    then obtain mc where mc: "getProp v ''minContrast'' = Inr mc" using getProp_object by blast
    with True show ?thesis
      by (cases mc) (auto simp: validateAccessibility_def v bindE_def)
  next
    case False
    then show ?thesis
      by (auto simp: validateAccessibility_def v bindE_def)
  qed
qed

lemma zzz_color:
  "colorsLoop 0 [JStr ''#ZZZZZZ''] [] =
     Inr [mkError ''allowedColors[0]''
            (''Color '' @ quoted ''#ZZZZZZ''
             @ '' is invalid: contains invalid hex characters. Only 0-9 and A-F are allowed'')]"
  by (simp add: checkColor_def bindE_def jsTrim_def typeof_def isValidHexColor_def indexed_def
        showNat.simps[of 0] string_eval)

text \<open>
  C5. \<open>validateBrandKit\<close> never throws: for every input it returns a result. The result has
  a root-level error exactly when the input is not an object (\<open>null\<close>, \<open>undefined\<close> or a
  primitive value), and then it is \<open>valid: false\<close> with that single error. A kit whose
  \<open>allowedColors\<close> is \<open>["#ZZZZZZ"]\<close> is invalid and has exactly one error on a colour field,
  which cites the invalid hexadecimal characters.
\<close>

theorem validateBrandKit_never_throws:
  "(\<exists>res. validateBrandKit kit = Inr res \<and>
       ((\<exists>e\<in>set (errors res). field e = ''root'') \<longleftrightarrow> \<not> (truthy kit \<and> typeof kit = ''object''))) \<and>
   (\<not> (truthy kit \<and> typeof kit = ''object'') \<longrightarrow>
      validateBrandKit kit =
        Inr \<lparr> valid = False, errors = [mkError ''root'' ''Brand kit must be a valid JSON object''] \<rparr>) \<and>
   (map_of kvs ''allowedColors'' = Some (JArr [JStr ''#ZZZZZZ'']) \<longrightarrow>
      (\<exists>res. validateBrandKit (JObj kvs) = Inr res \<and> \<not> valid res \<and>
         filter (\<lambda>e. prefix ''allowedColors'' (field e)) (errors res) =
           [mkError ''allowedColors[0]''
              (''Color '' @ quoted ''#ZZZZZZ''
               @ '' is invalid: contains invalid hex characters. Only 0-9 and A-F are allowed'')]))"
proof (intro conjI impI)
  show "\<exists>res. validateBrandKit kit = Inr res \<and>
       ((\<exists>e\<in>set (errors res). field e = ''root'') \<longleftrightarrow> \<not> (truthy kit \<and> typeof kit = ''object''))"
  proof (cases "truthy kit \<and> typeof kit = ''object''")
    case False
    then show ?thesis by (auto simp: validateBrandKit_def)
  next
    case True
    then have t: "truthy kit" "typeof kit = ''object''" by simp_all
    obtain e1 where e1: "validateName kit = Inr e1" "\<forall>e\<in>set e1. field e = ''name''"
      using validateName_returns[OF t] by blast
    obtain e2 where e2: "validateAllowedColors kit = Inr e2" "\<forall>e\<in>set e2. fieldOf ''allowedColors'' e"
      using validateAllowedColors_returns[OF t] by blast
    obtain e3 where e3: "validateAllowedFonts kit = Inr e3" "\<forall>e\<in>set e3. fieldOf ''allowedFonts'' e"
      using validateAllowedFonts_returns[OF t] by blast
    obtain e4 where e4: "validateAccessibility kit = Inr e4"
      "\<forall>e\<in>set e4. field e = ''accessibility'' \<or> field e = ''accessibility.minContrast''"
      using validateAccessibility_returns[OF t] by blast
    have r: "validateBrandKit kit =
        Inr \<lparr> valid = (length (e1 @ e2 @ e3 @ e4) = 0), errors = e1 @ e2 @ e3 @ e4 \<rparr>"
      using t e1(1) e2(1) e3(1) e4(1) by (simp add: validateBrandKit_def bindE_def)
    have "\<forall>e\<in>set (e1 @ e2 @ e3 @ e4). field e \<noteq> ''root''"
      using e1(2) e2(2) e3(2) e4(2) fieldOf_colors fieldOf_fonts by fastforce
    with r True show ?thesis by auto
  qed
next
  assume "\<not> (truthy kit \<and> typeof kit = ''object'')"
  then show "validateBrandKit kit =
      Inr \<lparr> valid = False, errors = [mkError ''root'' ''Brand kit must be a valid JSON object''] \<rparr>"
    by (auto simp: validateBrandKit_def)
next
  assume a: "map_of kvs ''allowedColors'' = Some (JArr [JStr ''#ZZZZZZ''])"
  let ?kit = "JObj kvs"
  let ?err = "mkError ''allowedColors[0]''
              (''Color '' @ quoted ''#ZZZZZZ''
               @ '' is invalid: contains invalid hex characters. Only 0-9 and A-F are allowed'')"
  have t: "truthy ?kit" "typeof ?kit = ''object''" by (simp_all add: truthy_def typeof_def)
  obtain e1 where e1: "validateName ?kit = Inr e1" "\<forall>e\<in>set e1. field e = ''name''"
    using validateName_returns[OF t] by blast
  have e2: "validateAllowedColors ?kit = Inr [?err]"
    using a zzz_color
    by (simp add: validateAllowedColors_def getProp_def bindE_def isArray_def jsElements_def)
  obtain e3 where e3: "validateAllowedFonts ?kit = Inr e3" "\<forall>e\<in>set e3. fieldOf ''allowedFonts'' e"
    using validateAllowedFonts_returns[OF t] by blast
  obtain e4 where e4: "validateAccessibility ?kit = Inr e4"
    "\<forall>e\<in>set e4. field e = ''accessibility'' \<or> field e = ''accessibility.minContrast''"
    using validateAccessibility_returns[OF t] by blast
  have r: "validateBrandKit ?kit =
      Inr \<lparr> valid = (length (e1 @ [?err] @ e3 @ e4) = 0), errors = e1 @ [?err] @ e3 @ e4 \<rparr>"
    using t e1(1) e2 e3(1) e4(1) by (simp add: validateBrandKit_def bindE_def)
  have f1: "filter (\<lambda>e. prefix ''allowedColors'' (field e)) e1 = []"
    using e1(2) by (auto simp: filter_empty_conv)
  have f3: "filter (\<lambda>e. prefix ''allowedColors'' (field e)) e3 = []"
    using e3(2) fieldOf_fonts by (auto simp: filter_empty_conv)
  have f4: "filter (\<lambda>e. prefix ''allowedColors'' (field e)) e4 = []"
    using e4(2) by (auto simp: filter_empty_conv)
  have "filter (\<lambda>e. prefix ''allowedColors'' (field e)) (e1 @ [?err] @ e3 @ e4) = [?err]"
    using f1 f3 f4 by simp
  with r show "\<exists>res. validateBrandKit ?kit = Inr res \<and> \<not> valid res \<and>
         filter (\<lambda>e. prefix ''allowedColors'' (field e)) (errors res) = [?err]"
    by simp
qed

theorem validateBrandKit_never_throws_witness:
  "validateBrandKit (JStr ''kit'') =
     Inr \<lparr> valid = False, errors = [mkError ''root'' ''Brand kit must be a valid JSON object''] \<rparr> \<and>
   (\<exists>res. validateBrandKit (JObj [(''allowedColors'', JArr [JStr ''#ZZZZZZ''])]) = Inr res \<and>
      \<not> valid res \<and>
      filter (\<lambda>e. prefix ''allowedColors'' (field e)) (errors res) =
        [mkError ''allowedColors[0]''
           (''Color '' @ quoted ''#ZZZZZZ''
            @ '' is invalid: contains invalid hex characters. Only 0-9 and A-F are allowed'')])"
  using validateBrandKit_never_throws[of "JStr ''kit''" "[(''allowedColors'', JArr [JStr ''#ZZZZZZ''])]"]
  by (simp add: truthy_def typeof_def)

text \<open>
  C5, as stated, fails for the empty object: it passes the root check and gets the four
  errors of the missing fields, none of them at the root.
\<close>

theorem validateBrandKit_empty_object:
  "validateBrandKit (JObj []) =
     Inr \<lparr> valid = False,
           errors = [mkError ''name'' ''Brand kit must have a non-empty name'',
                     mkError ''allowedColors'' ''allowedColors must be an array'',
                     mkError ''allowedFonts'' ''allowedFonts must be an array'',
                     mkError ''accessibility'' ''accessibility must be an object''] \<rparr>"
  by (simp add: validateBrandKit_def validateName_def validateAllowedColors_def
        validateAllowedFonts_def validateAccessibility_def getProp_def bindE_def truthy_def
        typeof_def isArray_def)
section \<open>Properties of the contrast arithmetic\<close>





















lemmas example_eval = exampleKit_def exampleElement_def















section \<open>Properties of the audit and of the suggestion\<close>

subsection \<open>The health score\<close>

lemma roundTiesToEven_err: "\<bar>of_int (roundTiesToEven y) - y\<bar> \<le> 1/2"
  unfolding roundTiesToEven_def Let_def by (simp; linarith)

lemma toDouble_err: "\<bar>toDouble x - x\<bar> \<le> \<bar>x\<bar> / 2 ^ 53"
proof (cases "x = 0")
  case True
  then show ?thesis by (simp add: toDouble_def)
next
  case False
  define e where "e = \<lfloor>log 2 \<bar>x\<bar>\<rfloor>"
  define ulp :: real where "ulp = 2 powi (e - 52)"
  have pos: "0 < ulp" by (simp add: ulp_def)
  have "2 powr (of_int e) \<le> \<bar>x\<bar>"
    using floor_log_eq_powr_iff[of "\<bar>x\<bar>" 2 e] False by (simp add: e_def)
  then have le: "2 powi e \<le> \<bar>x\<bar>" by (simp add: powr_real_of_int')
  have ulp_eq: "ulp = 2 powi e / 2 ^ 52" by (simp add: ulp_def power_int_diff)
  have td: "toDouble x = of_int (roundTiesToEven (x / ulp)) * ulp"
    using False by (simp add: toDouble_def e_def ulp_def Let_def)
  have "toDouble x - x = ulp * (of_int (roundTiesToEven (x / ulp)) - x / ulp)"
    using pos by (simp add: td field_simps)
  then have "\<bar>toDouble x - x\<bar> = ulp * \<bar>of_int (roundTiesToEven (x / ulp)) - x / ulp\<bar>"
    using pos by (simp add: abs_mult)
  also have "\<dots> \<le> ulp * (1/2)"
    using pos roundTiesToEven_err[of "x / ulp"] by (intro mult_left_mono) simp_all
  also have "\<dots> = 2 powi e / 2 ^ 53" by (simp add: ulp_eq)
  also have "\<dots> \<le> \<bar>x\<bar> / 2 ^ 53" using le by (simp add: divide_right_mono)
  finally show ?thesis .
qed

lemma percent_err:
  assumes "0 \<le> q" "q \<le> 1"
  shows "\<bar>toDouble (toDouble q * 100) - q * 100\<bar> \<le> 201 / 2 ^ 53"
proof -
  have a: "\<bar>toDouble q - q\<bar> \<le> 1 / 2 ^ 53"
    using toDouble_err[of q] assms by (simp add: field_simps)
  have small: "(1 :: real) / 2 ^ 53 \<le> 1 / 100" by simp
  from a small have "\<bar>toDouble q\<bar> \<le> 101 / 100" using assms by linarith
  then have b: "\<bar>toDouble q * 100\<bar> \<le> 101" by (simp add: abs_mult)
  have "\<bar>toDouble (toDouble q * 100) - toDouble q * 100\<bar> \<le> \<bar>toDouble q * 100\<bar> / 2 ^ 53"
    by (rule toDouble_err)
  also have "\<dots> \<le> 101 / 2 ^ 53" using b by (simp add: divide_right_mono)
  finally have c: "\<bar>toDouble (toDouble q * 100) - toDouble q * 100\<bar> \<le> 101 / 2 ^ 53" .
  from a c show ?thesis by linarith
qed

text \<open>
  The computed percentage lies within \<open>201 / 2 ^ 53\<close> of the exact one; an exact percentage
  that is not half-way between two integers keeps a distance of at least \<open>1 / (2 * total)\<close>
  from the half-way points, so that \<open>Math.round\<close> then yields the exactly rounded value.
\<close>

lemma mathRound_percent:
  assumes n: "0 < n" "n < 2 ^ 32" and v: "v \<le> n"
  defines "x \<equiv> real (n - v) / real n * 100"
  defines "c \<equiv> toDouble (toDouble (real (n - v) / real n) * 100)"
  shows "frac x \<noteq> 1/2 \<Longrightarrow> mathRound c = round x"
    and "mathRound c = round x \<or> mathRound c = round x - 1"
proof -
  have q: "0 \<le> real (n - v) / real n" "real (n - v) / real n \<le> 1" using n v by simp_all
  have err: "\<bar>c - x\<bar> \<le> 201 / 2 ^ 53" unfolding c_def x_def by (rule percent_err[OF q])
  have rx: "of_int (round x) \<le> x + 1/2" "x + 1/2 < of_int (round x) + 1"
    unfolding round_def by linarith+
  have exact: "mathRound c = round x" if "frac x \<noteq> 1/2"
  proof -
    define k :: int where "k = 200 * int (n - v) + int n - 2 * int n * round x"
    have kx: "x + 1/2 - of_int (round x) = of_int k / (2 * real n)"
      using n by (simp add: k_def x_def field_simps)
    have "x + 1/2 \<noteq> of_int (round x)"
    proof
      assume "x + 1/2 = of_int (round x)"
      then have xm: "x = of_int (round x - 1) + 1/2" by simp
      then have "\<lfloor>x\<rfloor> = round x - 1" by linarith
      with xm have "frac x = 1/2" by (simp add: frac_def)
      with that show False by simp
    qed
    with rx kx have "0 < of_int k / (2 * real n)" "of_int k / (2 * real n) < 1" by linarith+
    then have "0 < k" "k < 2 * int n" using n by (simp_all add: field_simps zero_less_divide_iff)
    then have "1 \<le> (of_int k :: real)" "(of_int k :: real) \<le> 2 * real n - 1" by linarith+
    then have "1 / (2 * real n) \<le> of_int k / (2 * real n)"
      "of_int k / (2 * real n) \<le> 1 - 1 / (2 * real n)"
      using n by (simp_all add: field_simps)
    moreover have "201 / 2 ^ 53 < 1 / (2 * real n)"
    proof -
      have "real n < 2 ^ 32" using n by (metis of_nat_less_iff of_nat_numeral of_nat_power)
      then show ?thesis using n by (simp add: field_simps)
    qed
    ultimately have "of_int (round x) \<le> c + 1/2" "c + 1/2 < of_int (round x) + 1"
      using err kx by linarith+
    then show ?thesis unfolding mathRound_def by linarith
  qed
  show "frac x \<noteq> 1/2 \<Longrightarrow> mathRound c = round x" by (rule exact)
  show "mathRound c = round x \<or> mathRound c = round x - 1"
  proof (cases "frac x = 1/2")
    case False
    then show ?thesis using exact by simp
  next
    case True
    have "x = of_int \<lfloor>x\<rfloor> + 1/2" using True by (simp add: frac_def)
    then have "x + 1/2 = of_int (\<lfloor>x\<rfloor> + 1)" by simp
    then have "x + 1/2 = of_int (round x)" unfolding round_def by (metis floor_of_int)
    moreover have "(201 :: real) / 2 ^ 53 < 1 / 2" by simp
    ultimately have "of_int (round x) - 1 \<le> c + 1/2" "c + 1/2 < of_int (round x) + 1"
      using err by linarith+
    then show ?thesis unfolding mathRound_def by linarith
  qed
qed

lemma healthScoreOf_eq:
  "results \<noteq> [] \<Longrightarrow>
   healthScoreOf kit manager results =
     mathRound
       (toDouble (toDouble (real (length results - length (filter (hasSomeViolation kit manager) results))
                            / real (length results)) * 100))"
  by (simp add: healthScoreOf_def badElements_def Let_def)

text \<open>
  C8. The health score of an audit pass is 100 when nothing was scanned. Otherwise, with
  \<open>total\<close> the number of scanned elements (an array length, below \<open>2 ^ 32\<close>) and \<open>violating\<close>
  the number of elements that the audit flags, it is \<open>round ((total - violating) / total * 100)\<close>
  whenever that percentage is not exactly half-way between two integers; at a half-way
  percentage the double arithmetic of the program decides, and the score is the rounded
  percentage or one less. Ten scanned elements with three violations give 70.
\<close>

theorem healthScore_formula:
  assumes "length results < 2 ^ 32"
  shows "(results = [] \<longrightarrow> healthScoreOf kit manager results = 100) \<and>
         (results \<noteq> [] \<and>
          frac ((real (length results) - real (length (filter (hasSomeViolation kit manager) results)))
                / real (length results) * 100) \<noteq> 1/2
          \<longrightarrow> healthScoreOf kit manager results =
                round ((real (length results) - real (length (filter (hasSomeViolation kit manager) results)))
                       / real (length results) * 100)) \<and>
         (results \<noteq> []
          \<longrightarrow> healthScoreOf kit manager results
                \<in> {round ((real (length results) - real (length (filter (hasSomeViolation kit manager) results)))
                           / real (length results) * 100) - 1,
                    round ((real (length results) - real (length (filter (hasSomeViolation kit manager) results)))
                           / real (length results) * 100)}) \<and>
         (length results = 10 \<and> length (filter (hasSomeViolation kit manager) results) = 3
          \<longrightarrow> healthScoreOf kit manager results = 70)"
proof -
  let ?n = "length results"
  let ?b = "length (filter (hasSomeViolation kit manager) results)"
  let ?x = "(real ?n - real ?b) / real ?n * 100"
  have b: "?b \<le> ?n" by simp
  then have sub: "real (?n - ?b) = real ?n - real ?b" by (rule of_nat_diff)
  have exact: "healthScoreOf kit manager results = round ?x" if "results \<noteq> []" "frac ?x \<noteq> 1/2"
    using mathRound_percent(1)[of ?n ?b] that assms b
    by (simp add: healthScoreOf_eq sub del: of_nat_diff)
  have near: "healthScoreOf kit manager results = round ?x \<or> healthScoreOf kit manager results = round ?x - 1"
    if "results \<noteq> []"
    using mathRound_percent(2)[of ?n ?b] that assms b
    by (simp add: healthScoreOf_eq sub del: of_nat_diff)
  have ten: "healthScoreOf kit manager results = 70" if "?n = 10" "?b = 3"
  proof -
    from that have ne: "results \<noteq> []" by auto
    from that have x: "?x = 70" by simp
    have "frac ?x \<noteq> 1/2" unfolding x by (simp add: frac_def)
    from exact[OF ne this] show ?thesis unfolding x by simp
  qed
  have empty: "healthScoreOf kit manager [] = 100" by (simp add: healthScoreOf_def)
  from exact near ten empty show ?thesis by blast
qed

lemma red_flagged:
  "hasSomeViolation (exampleKit [''#000000''] m) mg (exampleElement i ''Rectangle'' (Some ''#FF0000'') None None)"
  by (simp add: example_eval hasSomeViolation_def paletteViolation_def present_def
        isBrandCompliant_def toHex6_def string_eval)

lemma black_clean:
  "\<not> hasSomeViolation (exampleKit [''#000000''] m) mg (exampleElement i ''Rectangle'' (Some ''#000000'') None None)"
  by (simp add: example_eval hasSomeViolation_def paletteViolation_def contrastViolation_def
        fontViolation_def present_def isBrandCompliant_def toHex6_def string_eval)

theorem healthScore_formula_witness:
  "healthScoreOf (exampleKit [''#000000''] 4.5) (Some (exampleKit [''#000000''] 4.5))
     (map (\<lambda>i. exampleElement i ''Rectangle'' (Some ''#FF0000'') None None) [''1'', ''2'', ''3''] @
      map (\<lambda>i. exampleElement i ''Rectangle'' (Some ''#000000'') None None)
        [''4'', ''5'', ''6'', ''7'', ''8'', ''9'', ''10'']) = 70"
  using healthScore_formula[where results =
        "map (\<lambda>i. exampleElement i ''Rectangle'' (Some ''#FF0000'') None None) [''1'', ''2'', ''3''] @
         map (\<lambda>i. exampleElement i ''Rectangle'' (Some ''#000000'') None None)
           [''4'', ''5'', ''6'', ''7'', ''8'', ''9'', ''10'']"
        and kit = "exampleKit [''#000000''] 4.5"
        and manager = "Some (exampleKit [''#000000''] 4.5)"]
  by (simp add: red_flagged black_clean)

text \<open>
  Forty scanned elements with seventeen violations: the exact percentage is 57.5, which
  rounds to 58. The program divides 23 by 40 to the double just below 0.575, multiplies it by
  100 to the double just below 57.5, and rounds that to 57.
\<close>

lemma binade: "0 < x \<Longrightarrow> 2 powi k \<le> x \<Longrightarrow> x < 2 powi (k + 1) \<Longrightarrow> \<lfloor>log 2 x\<rfloor> = k"
  using floor_log_eq_powr_iff[of x 2 k] powr_real_of_int'[of 2 k] powr_real_of_int'[of 2 "k + 1"]
  by simp

lemma toDouble_23_40: "toDouble (23 / 40) = 5179139571476070 / 2 ^ 53"
proof -
  have "\<lfloor>log 2 (23 / 40 :: real)\<rfloor> = - 1"
    by (rule binade) (simp_all add: power_int_minus)
  then show ?thesis
    by (simp add: toDouble_def Let_def power_int_minus roundTiesToEven_def)
qed

lemma toDouble_below_tie: "toDouble (5179139571476070 / 2 ^ 53 * 100) = 57.5 - 1 / 2 ^ 47"
proof -
  have "\<lfloor>log 2 (5179139571476070 / 2 ^ 53 * 100 :: real)\<rfloor> = 5"
    by (rule binade) (simp_all add: power_int_minus)
  then show ?thesis
    by (simp add: toDouble_def Let_def power_int_minus roundTiesToEven_def)
qed

lemma filter_map_all: "(\<And>x. P (f x)) \<Longrightarrow> filter P (map f xs) = map f xs"
  by (induction xs) simp_all

lemma filter_map_none: "(\<And>x. \<not> P (f x)) \<Longrightarrow> filter P (map f xs) = []"
  by (induction xs) simp_all

theorem healthScore_tie_rounds_down:
  "healthScoreOf (exampleKit [''#000000''] 4.5) (Some (exampleKit [''#000000''] 4.5))
     (map (\<lambda>i. exampleElement (showNat i) ''Rectangle'' (Some ''#FF0000'') None None) [1..<18] @
      map (\<lambda>i. exampleElement (showNat i) ''Rectangle'' (Some ''#000000'') None None) [18..<41]) = 57 \<and>
   round ((40 - 17) / 40 * 100 :: real) = 58"
proof -
  let ?kit = "exampleKit [''#000000''] 4.5"
  let ?bad = "map (\<lambda>i. exampleElement (showNat i) ''Rectangle'' (Some ''#FF0000'') None None) [1..<18]"
  let ?good = "map (\<lambda>i. exampleElement (showNat i) ''Rectangle'' (Some ''#000000'') None None) [18..<41]"
  have fb: "filter (hasSomeViolation ?kit (Some ?kit)) ?bad = ?bad"
    by (rule filter_map_all) (rule red_flagged)
  have fg: "filter (hasSomeViolation ?kit (Some ?kit)) ?good = []"
    by (rule filter_map_none) (rule black_clean)
  have total: "length (?bad @ ?good) = 40"
    by (simp only: length_append length_map length_upt; simp)
  have "filter (hasSomeViolation ?kit (Some ?kit)) (?bad @ ?good) = ?bad"
    by (simp only: filter_append fb fg append_Nil2)
  then have violating: "length (filter (hasSomeViolation ?kit (Some ?kit)) (?bad @ ?good)) = 17"
    by (simp only: length_map length_upt; simp)
  have ne: "?bad @ ?good \<noteq> []" using total by auto
  have "healthScoreOf ?kit (Some ?kit) (?bad @ ?good) = mathRound (toDouble (toDouble (23 / 40) * 100))"
    unfolding healthScoreOf_eq[OF ne] total violating by simp
  also have "\<dots> = mathRound (57.5 - 1 / 2 ^ 47)"
    unfolding toDouble_23_40 toDouble_below_tie ..
  also have "\<dots> = 57" by (simp add: mathRound_def)
  finally have code: "healthScoreOf ?kit (Some ?kit) (?bad @ ?good) = 57" .
  have "round ((40 - 17) / 40 * 100 :: real) = 58" by (simp add: round_def)
  with code show ?thesis by simp
qed


























section \<open>Properties of the unfixable scan and of the contrast check\<close>




























section \<open>Properties of fix all and undo all\<close>

lemma handleAudit_keeps: "fixAllSnapshot (handleAudit P kit manager st) = fixAllSnapshot st"
  "doc (handleAudit P kit manager st) = doc st"
  by (simp_all add: handleAudit_def Let_def)

lemma handleFix_snapshot: "fixAllSnapshot (handleFix P kit manager st el) = fixAllSnapshot st"
  by (simp add: handleFix_def Let_def handleAudit_keeps split: option.splits prod.splits)

lemma foldl_handleFix_snapshot:
  "fixAllSnapshot (foldl (handleFix P kit manager) st vs) = fixAllSnapshot st"
  by (induction vs arbitrary: st) (simp_all add: handleFix_snapshot)

lemma map_of_mapSet: "map_of (mapSet k v m) k' = (if k' = k then Some v else map_of m k')"
  by (induction m) auto

lemma captureEntry_lookup:
  "map_of (captureEntry res snap v) k =
     (if k = elem_id v
      then Some (case currentState res (elem_id v) of
                   Some cur \<Rightarrow> (fillColor cur, fontName cur)
                 | None \<Rightarrow> (fillColor v, fontName v))
      else map_of snap k)"
  by (simp add: captureEntry_def map_of_mapSet split: option.splits)

lemma foldl_capture_found:
  assumes "currentState res k = Some cur"
  shows "map_of (foldl (captureEntry res) snap vs) k =
     (if k \<in> elem_id ` set vs then Some (fillColor cur, fontName cur) else map_of snap k)"
proof (induction vs arbitrary: snap)
  case Nil
  then show ?case by simp
next
  case (Cons v vs)
  show ?case
    using assms by (auto simp: Cons.IH captureEntry_lookup)
qed

lemma funpow_fixed: "f x = x \<Longrightarrow> (f ^^ n) x = x"
  by (induction n) simp_all

text \<open>
  What the two handlers do for every document provider. A batch fix started with a
  non-empty list of violations sets the snapshot to the colour and font, in the scan taken
  at the start of the batch, of every element of that list, before any fix is applied and
  whether or not a fix then succeeds. An undo with a snapshot clears it and leaves the
  document as the restore operations of the provider leave it. A batch fix started with an
  empty list of violations changes nothing, the snapshot included.
\<close>

lemma handleFixAll_handleUndoAll_steps:
  "(violations st \<noteq> [] \<longrightarrow>
      fixAllSnapshot (handleFixAll P kit manager st) =
        Some (captureSnapshot (scanDocument P (doc st)) (violations st)) \<and>
      (\<forall>v cur. v \<in> set (violations st) \<and>
          currentState (scanDocument P (doc st)) (elem_id v) = Some cur \<longrightarrow>
          map_of (captureSnapshot (scanDocument P (doc st)) (violations st)) (elem_id v) =
            Some (fillColor cur, fontName cur))) \<and>
   (\<forall>snap. fixAllSnapshot st = Some snap \<longrightarrow>
      handleUndoAll P kit manager st =
        handleAudit P kit manager (st\<lparr> doc := foldl (restoreEntry P) (doc st) snap, fixAllSnapshot := None \<rparr>) \<and>
      doc (handleUndoAll P kit manager st) = foldl (restoreEntry P) (doc st) snap \<and>
      fixAllSnapshot (handleUndoAll P kit manager st) = None) \<and>
   (fixAllSnapshot st = None \<longrightarrow> handleUndoAll P kit manager st = st) \<and>
   (violations st = [] \<longrightarrow>
      handleFixAll P kit manager st = st \<and>
      ((handleFixAll P kit manager) ^^ n) st = st \<and>
      handleUndoAll P kit manager (((handleFixAll P kit manager) ^^ n) st) = handleUndoAll P kit manager st)"
proof (intro conjI impI allI)
  assume "violations st \<noteq> []"
  then show "fixAllSnapshot (handleFixAll P kit manager st) =
        Some (captureSnapshot (scanDocument P (doc st)) (violations st))"
    by (simp add: handleFixAll_def Let_def foldl_handleFix_snapshot)
next
  fix v cur
  assume "v \<in> set (violations st) \<and>
          currentState (scanDocument P (doc st)) (elem_id v) = Some cur"
  then show "map_of (captureSnapshot (scanDocument P (doc st)) (violations st)) (elem_id v) =
            Some (fillColor cur, fontName cur)"
    using foldl_capture_found[of "scanDocument P (doc st)" "elem_id v" cur "[]" "violations st"]
    by (simp add: captureSnapshot_def)
next
  fix snap assume s: "fixAllSnapshot st = Some snap"
  then show u: "handleUndoAll P kit manager st =
        handleAudit P kit manager (st\<lparr> doc := foldl (restoreEntry P) (doc st) snap, fixAllSnapshot := None \<rparr>)"
    by (simp add: handleUndoAll_def)
  show "doc (handleUndoAll P kit manager st) = foldl (restoreEntry P) (doc st) snap"
    unfolding u by (simp add: handleAudit_keeps)
  show "fixAllSnapshot (handleUndoAll P kit manager st) = None"
    unfolding u by (simp add: handleAudit_keeps)
next
  assume "fixAllSnapshot st = None"
  then show "handleUndoAll P kit manager st = st" by (simp add: handleUndoAll_def)
next
  assume e: "violations st = []"
  then show f: "handleFixAll P kit manager st = st" by (simp add: handleFixAll_def)
  then show g: "((handleFixAll P kit manager) ^^ n) st = st" by (rule funpow_fixed)
  then show "handleUndoAll P kit manager (((handleFixAll P kit manager) ^^ n) st) = handleUndoAll P kit manager st"
    by simp
qed

text \<open>The two example documents under the two example kits, step by step.\<close>

lemma hex_facts:
  "toHex6 (Some ''#FF0000FF'') = Some ''#FF0000''" "toHex6 (Some ''#232D4BFF'') = Some ''#232D4B''"
  by (simp_all add: toHex6_def string_eval)

lemma nearest_navy:
  "allowedColors kit = [''#232D4B''] \<Longrightarrow>
   findNearestBrandColor (Some kit) (Some ''#FF0000'') = Some ''#232D4B''"
  "allowedColors kit = [''#232D4B''] \<Longrightarrow>
   findNearestBrandColor (Some kit) (Some ''#232D4B'') = Some ''#232D4B''"
  by (simp_all add: findNearestBrandColor_def getBrandKit_def nearestHexToRgb_def nearestNormalize_def dist2_def
        parseInt16_def strip0x_def hexNumber_def string_eval)

lemma suggest_navy:
  "allowedColors kit = [''#232D4B''] \<Longrightarrow>
   determineSuggestedColor kit (Some kit) (exampleElement i t (Some ''#FF0000FF'') None f)
     = Some ''#232D4B''"
  "allowedColors kit = [''#232D4B''] \<Longrightarrow>
   determineSuggestedColor kit (Some kit) (exampleElement i t (Some ''#232D4BFF'') None f)
     = Some ''#232D4B''"
  by (simp_all add: determineSuggestedColor_def hex_facts exampleElement_def present_def
        nearestOrFirst_def nearest_navy)

lemma font_facts:
  "\<not> isFontAllowed (Some ''Courier'') [''Arial'', ''Georgia'']"
  "isFontAllowed (Some ''Arial'') [''Arial'', ''Georgia'']"
  "\<not> isFontAllowed (Some ''Courier'') [''Lato'']"
  by (simp_all add: isFontAllowed_def normalizeFontName_def string_eval)

lemma kit_fields:
  "allowedColors navyKit = [''#232D4B'']" "allowedFonts navyKit = [''Arial'', ''Georgia'']"
  "allowedColors latoKit = [''#232D4B'']" "allowedFonts latoKit = [''Lato'']"
  by (simp_all add: navyKit_def latoKit_def exampleKit_def)

lemma violation_facts:
  assumes "allowedColors kit = [''#232D4B'']"
  shows "hasSomeViolation kit (Some kit) (exampleElement i t (Some ''#FF0000FF'') None f)"
    "hasSomeViolation kit (Some kit) (exampleElement i t (Some ''#232D4BFF'') None f) \<longleftrightarrow>
       f \<noteq> None \<and> f \<noteq> Some [] \<and> \<not> isFontAllowed f (allowedFonts kit)"
  using assms
  by (auto simp: hasSomeViolation_def paletteViolation_def contrastViolation_def
        fontViolation_def getBrandKit_def hex_facts isBrandCompliant_def exampleElement_def
        present_def toUpperCase_def upperChar_def split: option.splits)

lemma bad_example:
  "badElements navyKit (Some navyKit) exampleDoc = exampleDoc"
  "badElements navyKit (Some navyKit) fixedDoc = []"
  "badElements navyKit (Some navyKit) halfFixedDoc =
     [exampleElement ''el2'' ''Text'' (Some ''#232D4BFF'') None (Some ''Courier'')]"
  "badElements latoKit (Some latoKit) exampleDoc = exampleDoc"
  "badElements latoKit (Some latoKit) halfFixedDoc =
     [exampleElement ''el2'' ''Text'' (Some ''#232D4BFF'') None (Some ''Courier'')]"
  by (simp_all add: badElements_def exampleDoc_def fixedDoc_def halfFixedDoc_def
        violation_facts kit_fields font_facts)

lemma provider_fields:
  "scanDocument sandbox d = d" "fixColor sandbox = applyColor" "fixFont sandbox = applyFont"
  "restoreColor sandbox = applyColor" "restoreFont sandbox = applyFont"
  by (simp_all add: sandbox_def)

lemma audit_fields:
  "doc (handleAudit sandbox kit manager st) = doc st"
  "violations (handleAudit sandbox kit manager st) = badElements kit manager (doc st)"
  "fixAllSnapshot (handleAudit sandbox kit manager st) = fixAllSnapshot st"
  by (simp_all add: handleAudit_def Let_def provider_fields)

lemma el_fields:
  "elem_id (exampleElement i t fill bg f) = i" "fontName (exampleElement i t fill bg f) = f"
  "fillColor (exampleElement i t fill bg f) = fill" "elem_type (exampleElement i t fill bg f) = t"
  by (simp_all add: exampleElement_def)

lemma apply_examples:
  "applyColor exampleDoc ''el1'' ''#232D4B'' = (halfFixedDoc, True)"
  "applyColor halfFixedDoc ''el2'' ''#232D4B'' = (halfFixedDoc, True)"
  "applyFont halfFixedDoc ''el2'' ''Arial'' = (fixedDoc, True)"
  "applyFont halfFixedDoc ''el2'' ''Lato'' = (halfFixedDoc, False)"
  "applyFont halfFixedDoc ''el2'' ''Courier'' = (halfFixedDoc, True)"
  "applyColor halfFixedDoc ''el2'' ''#232D4BFF'' = (halfFixedDoc, True)"
  "applyColor fixedDoc ''el1'' ''#FF0000FF'' =
     ([exampleElement ''el1'' ''Rectangle'' (Some ''#FF0000FF'') None None,
       exampleElement ''el2'' ''Text'' (Some ''#232D4BFF'') None (Some ''Arial'')], True)"
  "applyColor [exampleElement ''el1'' ''Rectangle'' (Some ''#FF0000FF'') None None,
       exampleElement ''el2'' ''Text'' (Some ''#232D4BFF'') None (Some ''Arial'')] ''el2'' ''#232D4BFF'' =
     ([exampleElement ''el1'' ''Rectangle'' (Some ''#FF0000FF'') None None,
       exampleElement ''el2'' ''Text'' (Some ''#232D4BFF'') None (Some ''Arial'')], True)"
  "applyFont [exampleElement ''el1'' ''Rectangle'' (Some ''#FF0000FF'') None None,
       exampleElement ''el2'' ''Text'' (Some ''#232D4BFF'') None (Some ''Arial'')] ''el2'' ''Courier'' =
     (exampleDoc, True)"
  by (simp_all add: applyColor_def applyFont_def reportedHex_def fontPostScriptMap_def
        normalizeFontName_def exampleDoc_def halfFixedDoc_def fixedDoc_def exampleElement_def
        Let_def string_eval)

lemma capture_examples:
  "captureSnapshot exampleDoc exampleDoc =
     [(''el1'', (Some ''#FF0000FF'', None)), (''el2'', (Some ''#232D4BFF'', Some ''Courier''))]"
  "captureSnapshot halfFixedDoc
     [exampleElement ''el2'' ''Text'' (Some ''#232D4BFF'') None (Some ''Courier'')] =
     [(''el2'', (Some ''#232D4BFF'', Some ''Courier''))]"
  by (simp_all add: captureSnapshot_def captureEntry_def currentState_def exampleDoc_def
        halfFixedDoc_def el_fields)

lemma firstBatch_navy:
  "doc (firstBatch navyKit) = fixedDoc" "violations (firstBatch navyKit) = []"
  unfolding firstBatch_def
  by (simp_all add: handleFixAll_def Let_def audit_fields provider_fields idle_def bad_example)
     (simp_all add: exampleDoc_def handleFix_def getBrandKit_def Let_def el_fields kit_fields
        suggest_navy font_facts
        present_def first_def provider_fields audit_fields
        apply_examples[unfolded exampleDoc_def] bad_example)

lemma firstBatch_lato:
  "doc (firstBatch latoKit) = halfFixedDoc"
  "violations (firstBatch latoKit) =
     [exampleElement ''el2'' ''Text'' (Some ''#232D4BFF'') None (Some ''Courier'')]"
  unfolding firstBatch_def
  by (simp_all add: handleFixAll_def Let_def audit_fields provider_fields idle_def bad_example)
     (simp_all add: exampleDoc_def handleFix_def getBrandKit_def Let_def el_fields kit_fields
        suggest_navy font_facts
        present_def first_def provider_fields audit_fields
        apply_examples[unfolded exampleDoc_def] bad_example)

lemma firstBatch_snapshot:
  "kit = navyKit \<or> kit = latoKit \<Longrightarrow> fixAllSnapshot (firstBatch kit) =
     Some [(''el1'', (Some ''#FF0000FF'', None)), (''el2'', (Some ''#232D4BFF'', Some ''Courier''))]"
  unfolding firstBatch_def
  by (auto simp: handleFixAll_def Let_def audit_fields provider_fields idle_def bad_example
        foldl_handleFix_snapshot capture_examples)
     (simp_all add: exampleDoc_def)

lemma secondBatch_lato:
  "doc (handleFixAll sandbox latoKit (Some latoKit) (firstBatch latoKit)) = halfFixedDoc"
  "fixAllSnapshot (handleFixAll sandbox latoKit (Some latoKit) (firstBatch latoKit)) =
     Some [(''el2'', (Some ''#232D4BFF'', Some ''Courier''))]"
  by (simp_all add: handleFixAll_def Let_def firstBatch_lato provider_fields
        foldl_handleFix_snapshot capture_examples handleFix_def getBrandKit_def el_fields kit_fields
        suggest_navy
        font_facts present_def first_def apply_examples)

text \<open>The kit with Lato passes validation: it is one that an upload makes the active kit.\<close>

lemma latoKit_validates:
  "validateBrandKit
     (JObj [(''name'', JStr ''Lato kit''),
            (''allowedColors'', JArr [JStr ''#232D4B'']),
            (''allowedFonts'', JArr [JStr ''Lato'']),
            (''accessibility'', JObj [(''minContrast'', JNum 4.5)])])
   = Inr \<lparr> valid = True, errors = [] \<rparr>"
  by (simp add: validateBrandKit_def validateName_def validateAllowedColors_def
        validateAllowedFonts_def validateAccessibility_def getProp_def bindE_def truthy_def
        typeof_def isArray_def jsTrim_def jsElements_def checkColor_def checkFont_def
        isValidHexColor_def normalizeHexColor_def normalizeFontNameForValidation_def
        KNOWN_AVAILABLE_FONTS_def AVAILABLE_FONTS_def Let_def string_eval)

text \<open>
  C3. The snapshot is to reflect the document before the most recent batch that changed
  something, and the comment in \<open>handleFixAll\<close> says that the previous snapshot is kept so
  that an undo can still restore the state before the most recent batch that made changes.
  The code keeps the snapshot only when the list of violations is empty. Here the kit
  allows the font Lato, for which the sandbox has no PostScript mapping, so every font fix
  is refused. The first batch makes the rectangle navy and records both nodes. The second
  batch has the text to fix, changes nothing in the document, and yet replaces the
  snapshot by one that holds the text only; the undo then leaves the rectangle navy, so
  the document before the first batch is not restored.
\<close>

theorem snapshot_overwritten_by_failed_batch:
  "doc (handleFixAll sandbox latoKit (Some latoKit) (firstBatch latoKit)) = doc (firstBatch latoKit) \<and>
   fixAllSnapshot (firstBatch latoKit) =
     Some [(''el1'', (Some ''#FF0000FF'', None)), (''el2'', (Some ''#232D4BFF'', Some ''Courier''))] \<and>
   fixAllSnapshot (handleFixAll sandbox latoKit (Some latoKit) (firstBatch latoKit)) =
     Some [(''el2'', (Some ''#232D4BFF'', Some ''Courier''))] \<and>
   doc (handleUndoAll sandbox latoKit (Some latoKit) (handleFixAll sandbox latoKit (Some latoKit) (firstBatch latoKit)))
     = halfFixedDoc \<and>
   halfFixedDoc \<noteq> exampleDoc"
proof -
  let ?s2 = "handleFixAll sandbox latoKit (Some latoKit) (firstBatch latoKit)"
  have u: "doc (handleUndoAll sandbox latoKit (Some latoKit) ?s2) = halfFixedDoc"
    by (simp add: handleUndoAll_def secondBatch_lato audit_fields restoreEntry_def
          provider_fields apply_examples)
  have ne: "halfFixedDoc \<noteq> exampleDoc"
    by (simp add: halfFixedDoc_def exampleDoc_def exampleElement_def)
  show ?thesis
    using secondBatch_lato firstBatch_lato firstBatch_snapshot[of latoKit] u ne by simp
qed

text \<open>
  Under the kit that allows Arial the first batch fixes both nodes and leaves no violation;
  three further batches then change nothing, and the undo restores the first document.
\<close>

lemma snapshot_kept_by_empty_batches:
  "fixAllSnapshot (firstBatch navyKit) =
     Some [(''el1'', (Some ''#FF0000FF'', None)), (''el2'', (Some ''#232D4BFF'', Some ''Courier''))] \<and>
   doc (firstBatch navyKit) = fixedDoc \<and>
   fixedDoc \<noteq> exampleDoc \<and>
   ((handleFixAll sandbox navyKit (Some navyKit)) ^^ 3) (firstBatch navyKit) = firstBatch navyKit \<and>
   doc (handleUndoAll sandbox navyKit (Some navyKit) (((handleFixAll sandbox navyKit (Some navyKit)) ^^ 3) (firstBatch navyKit)))
     = exampleDoc \<and>
   fixAllSnapshot
     (handleUndoAll sandbox navyKit (Some navyKit) (((handleFixAll sandbox navyKit (Some navyKit)) ^^ 3) (firstBatch navyKit)))
     = None"
proof -
  let ?s0 = "handleAudit sandbox navyKit (Some navyKit) (idle exampleDoc)"
  have v0: "violations ?s0 = exampleDoc" "doc ?s0 = exampleDoc"
    by (simp_all add: audit_fields idle_def bad_example)
  have "exampleDoc \<noteq> []" by (simp add: exampleDoc_def)
  then have ne0: "violations ?s0 \<noteq> []" by (simp add: v0)
  have a: "fixAllSnapshot (firstBatch navyKit) =
     Some [(''el1'', (Some ''#FF0000FF'', None)), (''el2'', (Some ''#232D4BFF'', Some ''Courier''))]"
    using handleFixAll_handleUndoAll_steps[where st = ?s0 and P = sandbox and kit = navyKit
        and manager = "Some navyKit" and n = 0] ne0
    by (simp add: firstBatch_def v0 provider_fields capture_examples)
  have ne: "fixedDoc \<noteq> exampleDoc"
    by (simp add: fixedDoc_def exampleDoc_def exampleElement_def)
  note m = handleFixAll_handleUndoAll_steps[where st = "firstBatch navyKit" and P = sandbox
      and kit = navyKit and manager = "Some navyKit" and n = 3]
  have b: "((handleFixAll sandbox navyKit (Some navyKit)) ^^ 3) (firstBatch navyKit) = firstBatch navyKit"
    using m firstBatch_navy by simp
  have restore: "foldl (restoreEntry sandbox) fixedDoc
      [(''el1'', (Some ''#FF0000FF'', None)), (''el2'', (Some ''#232D4BFF'', Some ''Courier''))]
      = exampleDoc"
    by (simp add: restoreEntry_def provider_fields apply_examples)
  from m a have c1: "doc (handleUndoAll sandbox navyKit (Some navyKit) (firstBatch navyKit)) =
      foldl (restoreEntry sandbox) (doc (firstBatch navyKit))
        [(''el1'', (Some ''#FF0000FF'', None)), (''el2'', (Some ''#232D4BFF'', Some ''Courier''))]"
    by blast
  from m a have c2: "fixAllSnapshot (handleUndoAll sandbox navyKit (Some navyKit) (firstBatch navyKit)) = None"
    by blast
  have c: "doc (handleUndoAll sandbox navyKit (Some navyKit) (firstBatch navyKit)) = exampleDoc"
    "fixAllSnapshot (handleUndoAll sandbox navyKit (Some navyKit) (firstBatch navyKit)) = None"
    using c1 c2 firstBatch_navy(1) restore by simp_all
  show ?thesis using a firstBatch_navy ne b c by simp
qed

end
